theory Spec2Isabelle
  imports Complex_Main
begin

section \<open>The interactive 3D block scene of \<^verbatim>\<open>src/script.js\<close>\<close>

text \<open>
  The class \<^verbatim>\<open>BlockScene\<close> is embedded by explicit state passing. Two conventions hold
  throughout.

  \<^item> A JavaScript Number is read as a \<^typ>\<open>real\<close>; infinities and NaN of IEEE doubles
    are not part of the model. Rounding is written out in one place, the size of a
    block, where it decides whether the upper end of the range is reached: there every
    operation is rounded to the nearest double, ties to even.
  \<^item> \<^verbatim>\<open>Math.random()\<close> reads an ambient source. The source is a field of the state: an
    infinite sequence of the draws still to come, consumed from the front. ECMAScript
    promises every draw to lie in \<open>[0, 1)\<close>; that promise is the predicate \<open>draws_in_range\<close>
    and is assumed where a bound depends on it.
\<close>

subsection \<open>Vectors\<close>

record Vector2 =
  x2 :: real
  y2 :: real

record Vector3 =
  x3 :: real
  y3 :: real
  z3 :: real

definition Vector3_set :: "real \<Rightarrow> real \<Rightarrow> real \<Rightarrow> Vector3" where
  "Vector3_set a b c = \<lparr>x3 = a, y3 = b, z3 = c\<rparr>"

definition Vector3_add :: "Vector3 \<Rightarrow> Vector3 \<Rightarrow> Vector3" where
  "Vector3_add v w = \<lparr>x3 = x3 v + x3 w, y3 = y3 v + y3 w, z3 = z3 v + z3 w\<rparr>"

definition Vector3_length :: "Vector3 \<Rightarrow> real" where
  "Vector3_length v = sqrt (x3 v * x3 v + y3 v * y3 v + z3 v * z3 v)"

subsection \<open>The random source\<close>

type_synonym rng = "nat \<Rightarrow> real"

definition Math_random :: "rng \<Rightarrow> real \<times> rng" where
  "Math_random g = (g 0, (\<lambda>n. g (Suc n)))"

definition draws_in_range :: "rng \<Rightarrow> bool" where
  "draws_in_range g \<longleftrightarrow> (\<forall>n. 0 \<le> g n \<and> g n < 1)"

definition skip_draws :: "nat \<Rightarrow> rng \<Rightarrow> rng" where
  "skip_draws k g = (\<lambda>n. g (n + k))"

text \<open>The expression \<^verbatim>\<open>(Math.random() - 0.5) * k\<close>.\<close>

definition random_centered :: "real \<Rightarrow> rng \<Rightarrow> real \<times> rng" where
  "random_centered k g = (let (r, g1) = Math_random g in ((r - 0.5) * k, g1))"

text \<open>
  Three such expressions as the arguments of one call; JavaScript evaluates arguments
  from left to right, so the draws go to x, y, z in that order.
\<close>

definition random_Vector3 :: "real \<Rightarrow> rng \<Rightarrow> Vector3 \<times> rng" where
  "random_Vector3 k g =
     (let (a, g1) = random_centered k g;
          (b, g2) = random_centered k g1;
          (c, g3) = random_centered k g2
      in (Vector3_set a b c, g3))"

subsection \<open>Scene objects\<close>

text \<open>
  A \<^verbatim>\<open>THREE.Mesh\<close> is an \<^verbatim>\<open>Object3D\<close>: it has a position and a scale, the scale
  \<open>(1, 1, 1)\<close> when the object is made. A block adds the edge length of its box
  geometry and the colour of its material; a particle adds the \<^verbatim>\<open>velocity\<close> property the
  program attaches. A colour is \<open>Some hex\<close>, or \<open>None\<close> for JavaScript's \<^verbatim>\<open>undefined\<close>
  (what an array read out of range yields).
\<close>

record Object3D =
  position :: Vector3
  scale :: Vector3

record block = Object3D +
  size :: real
  color :: "nat option"

record particle = Object3D +
  velocity :: Vector3

definition in_cube :: "real \<Rightarrow> Vector3 \<Rightarrow> bool" where
  "in_cube h v \<longleftrightarrow> - h \<le> x3 v \<and> x3 v < h \<and> - h \<le> y3 v \<and> y3 v < h \<and> - h \<le> z3 v \<and> z3 v < h"

subsection \<open>Particle simulation\<close>

text \<open>The body of the \<^verbatim>\<open>forEach\<close> callback of \<^verbatim>\<open>animateParticles\<close>, for one particle.\<close>

definition animateParticle :: "particle \<Rightarrow> rng \<Rightarrow> particle \<times> rng" where
  "animateParticle p g =
     (let p1 = p\<lparr>position := Vector3_add (position p) (velocity p)\<rparr>
      in if Vector3_length (position p1) > 20
         then (let (pos, g1) = random_Vector3 10 g;
                   (vel, g2) = random_Vector3 0.02 g1
               in (p1\<lparr>position := pos, velocity := vel\<rparr>, g2))
         else (p1, g))"

fun forEach_particle :: "particle list \<Rightarrow> rng \<Rightarrow> particle list \<times> rng" where
  "forEach_particle [] g = ([], g)"
| "forEach_particle (p # ps) g =
     (let (p1, g1) = animateParticle p g;
          (ps1, g2) = forEach_particle ps g1
      in (p1 # ps1, g2))"

text \<open>Whether the velocity add takes a particle beyond the radius 20.\<close>

definition escapes :: "particle \<Rightarrow> bool" where
  "escapes p \<longleftrightarrow> Vector3_length (Vector3_add (position p) (velocity p)) > 20"

text \<open>
  The number of draws the loop has consumed when it reaches particle \<open>i\<close>: six for
  every earlier particle that was reseeded.
\<close>

definition draws_before :: "particle list \<Rightarrow> nat \<Rightarrow> nat" where
  "draws_before ps i = 6 * length (filter escapes (take i ps))"

definition zero_Vector3 :: Vector3 where
  "zero_Vector3 = Vector3_set 0 0 0"

subsection \<open>The state of a \<^verbatim>\<open>BlockScene\<close>\<close>

text \<open>
  The fields of \<^verbatim>\<open>this\<close> that the program reads or writes after construction, and with
  them the ambient state it touches: the random source, the frames handed to the
  renderer, and the number of calls of \<^verbatim>\<open>requestAnimationFrame\<close>. The camera stands for
  the camera together with its orbit controls. \<^verbatim>\<open>lastIntersected\<close> is a reference to one
  of the children of the block group; blocks are never removed or reordered, so the
  reference is the child's index, and \<open>None\<close> is \<^verbatim>\<open>null\<close>.
\<close>

record ('cam, 'ray, 'img) BlockScene =
  camera :: 'cam
  raycaster :: 'ray
  mouse :: Vector2
  lastIntersected :: "nat option"
  blockGroup_children :: "block list"
  blockGroup_rotation_x :: real
  blockGroup_rotation_y :: real
  particles :: "particle list"
  colors :: "nat list"
  blockCount :: nat
  particleCount :: nat
  clusterRadius :: real
  random_source :: rng
  rendered :: "'img list"
  frame_requests :: nat

text \<open>
  The rendering library is not part of the repository. What the program calls of it is
  a parameter of the model: nothing is assumed of these functions beyond their types.
  \<^verbatim>\<open>intersectObjects\<close> yields the indices of the children hit, nearest first; it may look at
  the whole state (the ray just set, the blocks, the rotation of their group).
\<close>

record ('cam, 'ray, 'img) three =
  setup_succeeds :: bool
  new_camera :: 'cam
  new_raycaster :: 'ray
  setFromCamera :: "'ray \<Rightarrow> Vector2 \<Rightarrow> 'cam \<Rightarrow> 'ray"
  intersectObjects :: "('cam, 'ray, 'img) BlockScene \<Rightarrow> nat list"
  controls_update :: "'cam \<Rightarrow> 'cam"
  render :: "('cam, 'ray, 'img) BlockScene \<Rightarrow> 'img"

subsection \<open>Rounding to a double\<close>

text \<open>
  The result of an arithmetic operation on Numbers is the exact result rounded to the
  nearest binary64 value, ties to the value whose last mantissa bit is even. A double
  of binary exponent \<open>e\<close> (at least \<open>-1022\<close>; below that, the subnormal spacing) is a
  whole multiple of \<open>2^(e - 52)\<close>. Overflow to infinity, beyond \<open>2^1024\<close>, is not
  modelled; the numbers rounded here lie between 0 and 1.
\<close>

definition round_ties_even :: "real \<Rightarrow> int" where
  "round_ties_even x =
     (let f = \<lfloor>x\<rfloor>; d = x - of_int f
      in if d < 1 / 2 then f else if 1 / 2 < d then f + 1 else if even f then f else f + 1)"

definition double_exponent :: "real \<Rightarrow> int" where
  "double_exponent x = max (- 1022) \<lfloor>log 2 \<bar>x\<bar>\<rfloor>"

definition double_ulp :: "real \<Rightarrow> real" where
  "double_ulp x = 2 powr of_int (double_exponent x - 52)"

definition double_round :: "real \<Rightarrow> real" where
  "double_round x =
     (if x = 0 then 0 else of_int (round_ties_even (x / double_ulp x)) * double_ulp x)"

subsection \<open>Block generation\<close>

text \<open>
  Reading \<^verbatim>\<open>xs[i]\<close> for an integral \<open>i\<close>: the element, or \<^verbatim>\<open>undefined\<close> out of range.
\<close>

definition array_read :: "'a list \<Rightarrow> int \<Rightarrow> 'a option" where
  "array_read xs i = (if 0 \<le> i \<and> nat i < length xs then Some (xs ! nat i) else None)"

text \<open>\<^verbatim>\<open>this.colors[Math.floor(Math.random() * this.colors.length)]\<close>\<close>

definition random_color :: "nat list \<Rightarrow> rng \<Rightarrow> nat option \<times> rng" where
  "random_color cs g =
     (let (r, g1) = Math_random g
      in (array_read cs \<lfloor>r * real (length cs)\<rfloor>, g1))"

definition createBlock :: "real \<Rightarrow> real \<Rightarrow> real \<Rightarrow> nat option \<Rightarrow> rng \<Rightarrow> block \<times> rng" where
  "createBlock x y z c g =
     (let (r, g1) = Math_random g;
          sz = double_round (double_round (r * 0.5) + 0.5)
      in (\<lparr>position = Vector3_set x y z, scale = Vector3_set 1 1 1, size = sz, color = c\<rparr>, g1))"

text \<open>
  One iteration of the loop of \<^verbatim>\<open>createBlocks\<close>, up to the call of \<^verbatim>\<open>blockGroup.add\<close>:
  the block made and the random source left. \<^verbatim>\<open>clusterIndex\<close> is drawn and never read.
\<close>

definition createBlocks_body :: "real \<Rightarrow> nat list \<Rightarrow> rng \<Rightarrow> block \<times> rng" where
  "createBlocks_body R cs g =
     (let (r0, g0) = Math_random g;
          clusterIndex = \<lfloor>r0 * 3\<rfloor>;
          (clusterCenter, g3) = random_Vector3 10 g0;
          (ox, g4) = random_centered R g3;
          x = x3 clusterCenter + ox;
          (oy, g5) = random_centered R g4;
          y = y3 clusterCenter + oy;
          (oz, g6) = random_centered R g5;
          z = z3 clusterCenter + oz;
          (c, g7) = random_color cs g6
      in createBlock x y z c g7)"

definition createBlocks_iteration ::
  "('cam, 'ray, 'img) BlockScene \<Rightarrow> ('cam, 'ray, 'img) BlockScene" where
  "createBlocks_iteration s =
     (let (b, g) = createBlocks_body (clusterRadius s) (colors s) (random_source s)
      in s\<lparr>blockGroup_children := blockGroup_children s @ [b], random_source := g\<rparr>)"

fun createBlocks_loop ::
  "nat \<Rightarrow> ('cam, 'ray, 'img) BlockScene \<Rightarrow> ('cam, 'ray, 'img) BlockScene" where
  "createBlocks_loop 0 s = s"
| "createBlocks_loop (Suc n) s = createBlocks_loop n (createBlocks_iteration s)"

definition createBlocks ::
  "('cam, 'ray, 'img) BlockScene \<Rightarrow> ('cam, 'ray, 'img) BlockScene" where
  "createBlocks s = createBlocks_loop (blockCount s) s"

text \<open>
  The centre and the offset that \<^verbatim>\<open>createBlocks\<close> draws for the block of iteration \<open>i\<close>,
  read off the random source the loop starts with: iteration \<open>i\<close> consumes the nine
  draws from \<open>9 * i\<close> on, the centre is made of the second to fourth of them, the offset
  of the fifth to seventh.
\<close>

definition clusterCenter_of :: "rng \<Rightarrow> nat \<Rightarrow> Vector3" where
  "clusterCenter_of g i = fst (random_Vector3 10 (skip_draws (9 * i + 1) g))"

definition offset_of :: "real \<Rightarrow> rng \<Rightarrow> nat \<Rightarrow> Vector3" where
  "offset_of R g i = fst (random_Vector3 R (skip_draws (9 * i + 4) g))"

definition center_draws :: "nat \<Rightarrow> nat set" where
  "center_draws i = {9 * i + 1, 9 * i + 2, 9 * i + 3}"

subsection \<open>Particle generation\<close>

definition createParticles_body :: "rng \<Rightarrow> particle \<times> rng" where
  "createParticles_body g =
     (let (pos, g1) = random_Vector3 30 g;
          (vel, g2) = random_Vector3 0.02 g1
      in (\<lparr>position = pos, scale = Vector3_set 1 1 1, velocity = vel\<rparr>, g2))"

definition createParticles_iteration ::
  "('cam, 'ray, 'img) BlockScene \<Rightarrow> ('cam, 'ray, 'img) BlockScene" where
  "createParticles_iteration s =
     (let (p, g) = createParticles_body (random_source s)
      in s\<lparr>particles := particles s @ [p], random_source := g\<rparr>)"

fun createParticles_loop ::
  "nat \<Rightarrow> ('cam, 'ray, 'img) BlockScene \<Rightarrow> ('cam, 'ray, 'img) BlockScene" where
  "createParticles_loop 0 s = s"
| "createParticles_loop (Suc n) s = createParticles_loop n (createParticles_iteration s)"

definition createParticles ::
  "('cam, 'ray, 'img) BlockScene \<Rightarrow> ('cam, 'ray, 'img) BlockScene" where
  "createParticles s = createParticles_loop (particleCount s) s"

subsection \<open>The per-frame particle update on the state\<close>

definition animateParticles ::
  "('cam, 'ray, 'img) BlockScene \<Rightarrow> ('cam, 'ray, 'img) BlockScene" where
  "animateParticles s =
     (let (ps, g) = forEach_particle (particles s) (random_source s)
      in s\<lparr>particles := ps, random_source := g\<rparr>)"

subsection \<open>Pointer interaction\<close>

definition set_scale :: "nat \<Rightarrow> Vector3 \<Rightarrow> block list \<Rightarrow> block list" where
  "set_scale i v bs = bs[i := (bs ! i)\<lparr>scale := v\<rparr>]"

definition set_color :: "nat \<Rightarrow> nat option \<Rightarrow> block list \<Rightarrow> block list" where
  "set_color i c bs = bs[i := (bs ! i)\<lparr>color := c\<rparr>]"

text \<open>
  \<^verbatim>\<open>onMouseMove\<close> reads \<^verbatim>\<open>clientX\<close>, \<^verbatim>\<open>clientY\<close> of the event and the inner width and height
  of the window. (A window of width or height 0 makes the JavaScript quotient infinite
  or NaN where HOL's is 0; no statement below depends on the pointer coordinates of a
  move.)
\<close>

definition onMouseMove ::
  "('cam, 'ray, 'img) three \<Rightarrow> real \<Rightarrow> real \<Rightarrow> real \<Rightarrow> real \<Rightarrow>
   ('cam, 'ray, 'img) BlockScene \<Rightarrow> ('cam, 'ray, 'img) BlockScene" where
  "onMouseMove L clientX clientY innerWidth innerHeight s =
     (let s1 = s\<lparr>mouse := \<lparr>x2 = (clientX / innerWidth) * 2 - 1,
                            y2 = - (clientY / innerHeight) * 2 + 1\<rparr>\<rparr>;
          s2 = s1\<lparr>raycaster := setFromCamera L (raycaster s1) (mouse s1) (camera s1)\<rparr>;
          intersects = intersectObjects L s2;
          s3 = (case lastIntersected s2 of
                  Some j \<Rightarrow> s2\<lparr>blockGroup_children :=
                                set_scale j (Vector3_set 1 1 1) (blockGroup_children s2)\<rparr>
                | None \<Rightarrow> s2)
      in if length intersects > 0
         then (let s4 = s3\<lparr>lastIntersected := Some (hd intersects)\<rparr>
               in s4\<lparr>blockGroup_children :=
                       set_scale (hd intersects) (Vector3_set 1.1 1.1 1.1) (blockGroup_children s4)\<rparr>)
         else s3\<lparr>lastIntersected := None\<rparr>)"

definition onMouseClick ::
  "('cam, 'ray, 'img) three \<Rightarrow> ('cam, 'ray, 'img) BlockScene \<Rightarrow> ('cam, 'ray, 'img) BlockScene" where
  "onMouseClick L s =
     (let s1 = s\<lparr>raycaster := setFromCamera L (raycaster s) (mouse s) (camera s)\<rparr>;
          intersects = intersectObjects L s1
      in if length intersects > 0
         then (let (c, g) = random_color (colors s1) (random_source s1)
               in s1\<lparr>blockGroup_children := set_color (hd intersects) c (blockGroup_children s1),
                     random_source := g\<rparr>)
         else s1)"

subsection \<open>The frame driver\<close>

definition animate ::
  "('cam, 'ray, 'img) three \<Rightarrow> ('cam, 'ray, 'img) BlockScene \<Rightarrow> ('cam, 'ray, 'img) BlockScene" where
  "animate L s =
     (let s0 = s\<lparr>frame_requests := frame_requests s + 1\<rparr>;
          s1 = s0\<lparr>blockGroup_rotation_x := blockGroup_rotation_x s0 + 0.002\<rparr>;
          s2 = s1\<lparr>blockGroup_rotation_y := blockGroup_rotation_y s1 + 0.002\<rparr>;
          s3 = animateParticles s2;
          s4 = s3\<lparr>camera := controls_update L (camera s3)\<rparr>
      in s4\<lparr>rendered := rendered s4 @ [render L s4]\<rparr>)"

text \<open>
  The callback given to \<^verbatim>\<open>requestAnimationFrame\<close> is \<^verbatim>\<open>() => this.animate()\<close>: the host
  calls it with a time stamp, and the arrow function drops it.
\<close>

definition animation_frame_callback ::
  "('cam, 'ray, 'img) three \<Rightarrow> real \<Rightarrow> ('cam, 'ray, 'img) BlockScene \<Rightarrow> ('cam, 'ray, 'img) BlockScene" where
  "animation_frame_callback L timestamp s = animate L s"

subsection \<open>Construction, initialisation and events\<close>

text \<open>
  The constructor. The camera, which the constructor leaves \<^verbatim>\<open>null\<close> and \<^verbatim>\<open>init\<close> creates
  before any handler is registered, is held from construction on. A new
  \<^verbatim>\<open>THREE.Vector2\<close> is \<open>(0, 0)\<close>, a new \<^verbatim>\<open>THREE.Group\<close> has no children and no rotation.
\<close>

definition BlockScene_constructor ::
  "('cam, 'ray, 'img) three \<Rightarrow> rng \<Rightarrow> ('cam, 'ray, 'img) BlockScene" where
  "BlockScene_constructor L g =
     \<lparr>camera = new_camera L,
      raycaster = new_raycaster L,
      mouse = \<lparr>x2 = 0, y2 = 0\<rparr>,
      lastIntersected = None,
      blockGroup_children = [],
      blockGroup_rotation_x = 0,
      blockGroup_rotation_y = 0,
      particles = [],
      colors = [0x1e90ff, 0x00ff7f, 0xffffff],
      blockCount = 150,
      particleCount = 300,
      clusterRadius = 8,
      random_source = g,
      rendered = [],
      frame_requests = 0\<rparr>"

text \<open>
  \<^verbatim>\<open>init\<close> runs in a \<^verbatim>\<open>try\<close>: when the set-up of scene, camera, renderer or controls
  throws, the error is logged, no listener is registered and no frame is requested;
  that inert outcome is \<open>None\<close>.
\<close>

definition init ::
  "('cam, 'ray, 'img) three \<Rightarrow> ('cam, 'ray, 'img) BlockScene \<Rightarrow> ('cam, 'ray, 'img) BlockScene option" where
  "init L s =
     (if setup_succeeds L
      then Some (animate L (createParticles (createBlocks s)))
      else None)"

datatype event =
    MouseMove real real real real
  | MouseClick
  | AnimationFrame real

fun handle ::
  "('cam, 'ray, 'img) three \<Rightarrow> ('cam, 'ray, 'img) BlockScene \<Rightarrow> event \<Rightarrow> ('cam, 'ray, 'img) BlockScene" where
  "handle L s (MouseMove clientX clientY innerWidth innerHeight) =
     onMouseMove L clientX clientY innerWidth innerHeight s"
| "handle L s MouseClick = onMouseClick L s"
| "handle L s (AnimationFrame timestamp) = animation_frame_callback L timestamp s"

definition run ::
  "('cam, 'ray, 'img) three \<Rightarrow> ('cam, 'ray, 'img) BlockScene \<Rightarrow> event list \<Rightarrow> ('cam, 'ray, 'img) BlockScene" where
  "run L s es = foldl (handle L) s es"

fun is_MouseMove :: "event \<Rightarrow> bool" where
  "is_MouseMove (MouseMove _ _ _ _) = True"
| "is_MouseMove _ = False"

text \<open>
  The hover invariant: a block whose scale is not \<open>(1, 1, 1)\<close> is the recorded hover
  target and has scale \<open>(1.1, 1.1, 1.1)\<close>.
\<close>

definition hover_inv :: "('cam, 'ray, 'img) BlockScene \<Rightarrow> bool" where
  "hover_inv s \<longleftrightarrow>
     (\<forall>i < length (blockGroup_children s).
        scale (blockGroup_children s ! i) \<noteq> Vector3_set 1 1 1 \<longrightarrow>
          lastIntersected s = Some i \<and>
          scale (blockGroup_children s ! i) = Vector3_set 1.1 1.1 1.1)"

definition palette :: "nat list" where
  "palette = [0x1e90ff, 0x00ff7f, 0xffffff]"

subsection \<open>Concrete inputs\<close>

text \<open>
  A stand-in for the library whose ray hits nothing, and one whose ray hits the first
  child when the pointer is in the left half of the viewport, the second child and
  behind it the first when the pointer is in the next quarter, and nothing further
  right. Cameras, rays and frames carry no information in either.
\<close>

definition hit_nothing :: "(unit, unit, unit) three" where
  "hit_nothing =
     \<lparr>setup_succeeds = True, new_camera = (), new_raycaster = (),
      setFromCamera = (\<lambda>r m c. ()),
      intersectObjects = (\<lambda>s. []),
      controls_update = (\<lambda>c. c),
      render = (\<lambda>s. ())\<rparr>"

definition hit_by_side :: "(unit, unit, unit) three" where
  "hit_by_side =
     \<lparr>setup_succeeds = True, new_camera = (), new_raycaster = (),
      setFromCamera = (\<lambda>r m c. ()),
      intersectObjects = (\<lambda>s. filter (\<lambda>i. i < length (blockGroup_children s))
         (if x2 (mouse s) < 0 then [0] else if x2 (mouse s) < 1 / 2 then [1, 0] else [])),
      controls_update = (\<lambda>c. c),
      render = (\<lambda>s. ())\<rparr>"

text \<open>
  A stand-in whose camera is a counter of the control updates and whose frame records
  what the renderer is shown: the two rotation angles of the block group, the positions
  of the particles and the camera.
\<close>

definition recording :: "(nat, unit, real \<times> real \<times> Vector3 list \<times> nat) three" where
  "recording =
     \<lparr>setup_succeeds = True, new_camera = 0, new_raycaster = (),
      setFromCamera = (\<lambda>r m c. ()),
      intersectObjects = (\<lambda>s. []),
      controls_update = Suc,
      render = (\<lambda>s. (blockGroup_rotation_x s, blockGroup_rotation_y s,
                       map position (particles s), camera s))\<rparr>"

text \<open>
  A random source whose draw 16 is 0 and whose other draws are \<open>1/2\<close>. Draw 16 picks
  the colour of the second block that \<^verbatim>\<open>createBlocks\<close> makes.
\<close>

definition first_blue :: rng where
  "first_blue = (\<lambda>n. if n = 16 then 0 else 1 / 2)"

text \<open>The scene as \<^verbatim>\<open>init\<close> leaves it, with that random source.\<close>

definition started :: "(unit, unit, unit) BlockScene" where
  "started =
     animate hit_by_side (createParticles (createBlocks (BlockScene_constructor hit_by_side first_blue)))"

text \<open>
  A random source whose draw 8, the one that sizes the first block of \<^verbatim>\<open>createBlocks\<close>,
  is \<open>1 - 2^-53\<close>, the largest double below 1; the other draws are \<open>1/2\<close>.
\<close>

definition largest_size_draw :: rng where
  "largest_size_draw = (\<lambda>n. if n = 8 then 1 - 1 / 2 ^ 53 else 1 / 2)"

text \<open>A freshly constructed scene holding the given particles and random source.\<close>

definition scene_of :: "particle list \<Rightarrow> rng \<Rightarrow> (unit, unit, unit) BlockScene" where
  "scene_of ps g = (BlockScene_constructor hit_nothing g)\<lparr>particles := ps\<rparr>"

text \<open>A freshly constructed scene holding two unit blocks, a blue and a white one.\<close>

definition two_blocks :: "(unit, unit, unit) BlockScene" where
  "two_blocks =
     (BlockScene_constructor hit_by_side (\<lambda>n. 1 / 2))
       \<lparr>blockGroup_children :=
          [\<lparr>position = Vector3_set (- 2) 0 0, scale = Vector3_set 1 1 1, size = 1, color = Some 0x1e90ff\<rparr>,
           \<lparr>position = Vector3_set 2 0 0, scale = Vector3_set 1 1 1, size = 1, color = Some 0xffffff\<rparr>]\<rparr>"

text \<open>
  A particle at rest at \<open>(14, 14, 14)\<close>, a corner region of the cube of half-width 15
  in which \<^verbatim>\<open>createParticles\<close> places particles: its distance from the origin is
  \<open>sqrt 588\<close>, more than 24.
\<close>

definition resting_outside :: particle where
  "resting_outside =
     \<lparr>position = Vector3_set 14 14 14, scale = Vector3_set 1 1 1, velocity = zero_Vector3\<rparr>"

text \<open>A particle at rest at \<open>(1, 2, 2)\<close>, at distance 3 from the origin.\<close>

definition resting_inside :: particle where
  "resting_inside =
     \<lparr>position = Vector3_set 1 2 2, scale = Vector3_set 1 1 1, velocity = zero_Vector3\<rparr>"

text \<open>A particle about to cross the boundary: at \<open>(19.9, 0, 0)\<close>, moving by \<open>(0.5, 0, 0)\<close>.\<close>

definition leaving :: particle where
  "leaving =
     \<lparr>position = Vector3_set 19.9 0 0, scale = Vector3_set 1 1 1, velocity = Vector3_set 0.5 0 0\<rparr>"

text \<open>A particle drifting well inside: at \<open>(1, 2, 2)\<close>, moving by \<open>(0.01, 0, 0)\<close>.\<close>

definition drifting :: particle where
  "drifting =
     \<lparr>position = Vector3_set 1 2 2, scale = Vector3_set 1 1 1, velocity = Vector3_set 0.01 0 0\<rparr>"

section \<open>Facts about the random source\<close>

lemma skip_draws_0 [simp]: "skip_draws 0 g = g"
  by (simp add: skip_draws_def)

lemma skip_draws_skip_draws [simp]: "skip_draws a (skip_draws b g) = skip_draws (a + b) g"
  by (simp add: skip_draws_def add.assoc)

lemma skip_draws_apply: "skip_draws k g n = g (n + k)"
  by (simp add: skip_draws_def)

lemma draws_in_range_skip: "draws_in_range g \<Longrightarrow> draws_in_range (skip_draws k g)"
  by (simp add: draws_in_range_def skip_draws_apply)

lemma draws_in_rangeD: "draws_in_range g \<Longrightarrow> 0 \<le> g n \<and> g n < 1"
  by (simp add: draws_in_range_def)

lemma random_Vector3_eq:
  "random_Vector3 k g =
     (\<lparr>x3 = (g 0 - 0.5) * k, y3 = (g 1 - 0.5) * k, z3 = (g 2 - 0.5) * k\<rparr>, skip_draws 3 g)"
  by (simp add: random_Vector3_def random_centered_def Math_random_def Vector3_set_def
      skip_draws_def fun_eq_iff numeral_3_eq_3 numeral_2_eq_2)

lemma snd_random_Vector3 [simp]: "snd (random_Vector3 k g) = skip_draws 3 g"
  by (simp add: random_Vector3_eq)

lemma centered_bounds:
  assumes "0 \<le> r" "r < 1" "0 < k"
  shows "- (k / 2) \<le> (r - 0.5) * (k::real) \<and> (r - 0.5) * k < k / 2"
proof -
  have "(r - 0.5) * k = r * k - k / 2" by (simp add: algebra_simps)
  moreover have "0 \<le> r * k" using assms by simp
  moreover have "r * k < k" using assms by simp
  ultimately show ?thesis by linarith
qed

lemma random_Vector3_in_cube:
  assumes "draws_in_range g" "0 < k"
  shows "in_cube (k / 2) (fst (random_Vector3 k g))"
  using centered_bounds [OF _ _ assms(2)] draws_in_rangeD [OF assms(1)]
  by (simp add: random_Vector3_eq in_cube_def)

section \<open>Facts about vectors\<close>

lemma square_le_of_cube:
  assumes "- h \<le> a" "a < h"
  shows "a * a \<le> h * (h::real)"
proof -
  have "\<bar>a\<bar> \<le> \<bar>h\<bar>" using assms by linarith
  then have "a\<^sup>2 \<le> h\<^sup>2" by (simp only: abs_le_square_iff)
  then show ?thesis by (simp add: power2_eq_square)
qed

lemma in_cube_length:
  assumes "in_cube h v"
  shows "Vector3_length v \<le> h * sqrt 3"
proof -
  have h0: "0 \<le> h" using assms by (simp add: in_cube_def)
  have "x3 v * x3 v \<le> h * h" "y3 v * y3 v \<le> h * h" "z3 v * z3 v \<le> h * h"
    using assms by (simp_all add: in_cube_def square_le_of_cube)
  then have "x3 v * x3 v + y3 v * y3 v + z3 v * z3 v \<le> (h * h) * 3" by linarith
  then have "Vector3_length v \<le> sqrt ((h * h) * 3)"
    unfolding Vector3_length_def by (rule real_sqrt_le_mono)
  also have "\<dots> = h * sqrt 3" using h0 by (simp add: real_sqrt_mult)
  finally show ?thesis .
qed

lemma five_sqrt3_less_20: "5 * sqrt 3 < (20::real)"
proof -
  have "sqrt 3 < sqrt 16" by (rule real_sqrt_less_mono) simp
  also have "sqrt 16 = 4" by (rule real_sqrt_unique) simp_all
  finally show ?thesis by simp
qed

text \<open>Comparing a length with a non-negative bound without taking the root.\<close>

lemma less_Vector3_length:
  assumes "0 \<le> c"
  shows "c < Vector3_length v \<longleftrightarrow> c * c < x3 v * x3 v + y3 v * y3 v + z3 v * z3 v"
proof -
  have "c = sqrt (c * c)" using assms by simp
  then have "c < Vector3_length v \<longleftrightarrow> sqrt (c * c) < Vector3_length v" by simp
  also have "\<dots> \<longleftrightarrow> c * c < x3 v * x3 v + y3 v * y3 v + z3 v * z3 v"
    unfolding Vector3_length_def by (rule real_sqrt_less_iff)
  finally show ?thesis .
qed

lemma Vector3_add_zero [simp]: "Vector3_add v zero_Vector3 = v"
  by (simp add: Vector3_add_def zero_Vector3_def Vector3_set_def)

section \<open>The particle update\<close>

lemma length_forEach_particle [simp]: "length (fst (forEach_particle ps g)) = length ps"
  by (induction ps arbitrary: g) (simp_all add: split_beta Let_def)

lemma snd_animateParticle:
  "snd (animateParticle p g) = skip_draws (if escapes p then 6 else 0) g"
  by (simp add: animateParticle_def escapes_def Let_def random_Vector3_eq split_beta)

lemma animateParticle_stay:
  "\<not> escapes p \<Longrightarrow>
   fst (animateParticle p g) = p\<lparr>position := Vector3_add (position p) (velocity p)\<rparr>"
  by (simp add: animateParticle_def escapes_def Let_def)

lemma animateParticle_reseed:
  "escapes p \<Longrightarrow>
   fst (animateParticle p g) =
     p\<lparr>position := fst (random_Vector3 10 g), velocity := fst (random_Vector3 0.02 (skip_draws 3 g))\<rparr>"
  by (simp add: animateParticle_def escapes_def Let_def random_Vector3_eq)

text \<open>
  Particle \<open>i\<close> is updated by the callback on the random source as the earlier
  particles have left it.
\<close>

lemma forEach_particle_nth:
  "i < length ps \<Longrightarrow>
   fst (forEach_particle ps g) ! i = fst (animateParticle (ps ! i) (skip_draws (draws_before ps i) g))"
proof (induction ps arbitrary: i g)
  case Nil
  then show ?case by simp
next
  case (Cons p ps)
  show ?case
  proof (cases i)
    case 0
    then show ?thesis by (simp add: split_beta Let_def draws_before_def)
  next
    case (Suc j)
    then have j: "j < length ps" using Cons.prems by simp
    have "fst (forEach_particle (p # ps) g) ! i = fst (forEach_particle ps (snd (animateParticle p g))) ! j"
      by (simp add: split_beta Let_def Suc)
    also have "\<dots> = fst (animateParticle (ps ! j) (skip_draws (draws_before ps j) (snd (animateParticle p g))))"
      by (rule Cons.IH [OF j])
    also have "skip_draws (draws_before ps j) (snd (animateParticle p g)) = skip_draws (draws_before (p # ps) i) g"
      by (simp add: snd_animateParticle Suc draws_before_def add.commute)
    finally show ?thesis by (simp add: Suc)
  qed
qed

lemma particles_animateParticles:
  "particles (animateParticles s) = fst (forEach_particle (particles s) (random_source s))"
  by (simp add: animateParticles_def split_beta)

lemma animateParticles_nth:
  "i < length (particles s) \<Longrightarrow>
   particles (animateParticles s) ! i =
     fst (animateParticle (particles s ! i)
           (skip_draws (draws_before (particles s) i) (random_source s)))"
  by (simp add: particles_animateParticles forEach_particle_nth)

lemma reseeded_in_cubes:
  assumes "draws_in_range g"
  shows "in_cube 5 (fst (random_Vector3 10 (skip_draws k g)))"
    and "in_cube 0.01 (fst (random_Vector3 0.02 (skip_draws k g)))"
proof -
  have r: "draws_in_range (skip_draws k g)" using assms by (rule draws_in_range_skip)
  show "in_cube 5 (fst (random_Vector3 10 (skip_draws k g)))"
    using random_Vector3_in_cube [OF r, of 10] by simp
  show "in_cube 0.01 (fst (random_Vector3 0.02 (skip_draws k g)))"
    using random_Vector3_in_cube [OF r, of "0.02"] by simp
qed


section \<open>Properties of the particle update\<close>

lemma scene_of_fields [simp]:
  "particles (scene_of ps g) = ps" "random_source (scene_of ps g) = g"
  by (simp_all add: scene_of_def BlockScene_constructor_def)

lemma escapes_eval:
  "escapes p \<longleftrightarrow>
     400 < (x3 (position p) + x3 (velocity p)) * (x3 (position p) + x3 (velocity p))
         + (y3 (position p) + y3 (velocity p)) * (y3 (position p) + y3 (velocity p))
         + (z3 (position p) + z3 (velocity p)) * (z3 (position p) + z3 (velocity p))"
  by (simp add: escapes_def less_Vector3_length Vector3_add_def)

lemma Vector3_length_le_iff:
  "0 \<le> c \<Longrightarrow> Vector3_length v \<le> c \<longleftrightarrow> x3 v * x3 v + y3 v * y3 v + z3 v * z3 v \<le> c * c"
  using less_Vector3_length [of c v] by auto

text \<open>
  C1, as the code has it. A particle whose velocity is the zero vector keeps its position
  through \<^verbatim>\<open>animateParticles\<close> when that position lies within distance 20 of the origin.
  (Beyond that distance the boundary test fires although the particle did not move, and
  the particle is reseeded.)
\<close>

theorem zero_velocity_inside_keeps_position:
  assumes "i < length (particles s)"
    and "velocity (particles s ! i) = zero_Vector3"
    and "Vector3_length (position (particles s ! i)) \<le> 20"
  shows "position (particles (animateParticles s) ! i) = position (particles s ! i)"
proof -
  have "\<not> escapes (particles s ! i)" using assms(2,3) by (simp add: escapes_def)
  then show ?thesis
    using assms(2) by (simp add: animateParticles_nth [OF assms(1)] animateParticle_stay)
qed

theorem zero_velocity_inside_keeps_position_witness:
  "0 < length (particles (scene_of [resting_inside] (\<lambda>n. 1 / 2)))
   \<and> velocity (particles (scene_of [resting_inside] (\<lambda>n. 1 / 2)) ! 0) = zero_Vector3
   \<and> Vector3_length (position (particles (scene_of [resting_inside] (\<lambda>n. 1 / 2)) ! 0)) \<le> 20
   \<and> position (particles (animateParticles (scene_of [resting_inside] (\<lambda>n. 1 / 2))) ! 0)
       = Vector3_set 1 2 2"
  using zero_velocity_inside_keeps_position [of 0 "scene_of [resting_inside] (\<lambda>n. 1 / 2)"]
  by (simp add: resting_inside_def Vector3_length_le_iff Vector3_set_def)

text \<open>
  C1 as stated fails: the particle at rest at \<open>(14, 14, 14)\<close> is moved to the origin by
  one update in which every draw is \<open>1/2\<close>.
\<close>

theorem zero_velocity_outside_is_reseeded:
  "velocity resting_outside = zero_Vector3
   \<and> position (particles (scene_of [resting_outside] (\<lambda>n. 1 / 2)) ! 0) = Vector3_set 14 14 14
   \<and> position (particles (animateParticles (scene_of [resting_outside] (\<lambda>n. 1 / 2))) ! 0)
       = Vector3_set 0 0 0
   \<and> position (particles (animateParticles (scene_of [resting_outside] (\<lambda>n. 1 / 2))) ! 0)
       \<noteq> position (particles (scene_of [resting_outside] (\<lambda>n. 1 / 2)) ! 0)"
  by (simp add: resting_outside_def particles_animateParticles split_beta
      animateParticle_def less_Vector3_length Vector3_add_def Vector3_set_def zero_Vector3_def
      random_Vector3_eq)

text \<open>
  C2, as the code has it. In one call of \<^verbatim>\<open>animateParticles\<close>, with every draw in
  \<open>[0, 1)\<close>: a particle that the velocity add takes beyond distance 20 gets a position
  drawn afresh, each coordinate in \<open>[-5, 5)\<close>, hence at distance at most \<open>5 * sqrt 3\<close>
  from the origin, and a velocity drawn afresh, each coordinate in \<open>[-0.01, 0.01)\<close>;
  the six draws are the next six of the random source after those that earlier
  particles of the same call consumed. Every other particle has its old position plus
  its velocity, and its old velocity.
\<close>

theorem reseed_law:
  assumes "draws_in_range (random_source s)" and "i < length (particles s)"
  shows "(escapes (particles s ! i) \<longrightarrow>
            position (particles (animateParticles s) ! i)
              = fst (random_Vector3 10 (skip_draws (draws_before (particles s) i) (random_source s)))
          \<and> velocity (particles (animateParticles s) ! i)
              = fst (random_Vector3 0.02 (skip_draws (draws_before (particles s) i + 3) (random_source s)))
          \<and> in_cube 5 (position (particles (animateParticles s) ! i))
          \<and> Vector3_length (position (particles (animateParticles s) ! i)) \<le> 5 * sqrt 3
          \<and> in_cube 0.01 (velocity (particles (animateParticles s) ! i)))
       \<and> (\<not> escapes (particles s ! i) \<longrightarrow>
            position (particles (animateParticles s) ! i)
              = Vector3_add (position (particles s ! i)) (velocity (particles s ! i))
          \<and> velocity (particles (animateParticles s) ! i) = velocity (particles s ! i))"
proof (cases "escapes (particles s ! i)")
  case True
  let ?k = "draws_before (particles s) i"
  let ?g = "random_source s"
  have q: "particles (animateParticles s) ! i =
      (particles s ! i)\<lparr>position := fst (random_Vector3 10 (skip_draws ?k ?g)),
        velocity := fst (random_Vector3 0.02 (skip_draws (?k + 3) ?g))\<rparr>"
    using True by (simp add: animateParticles_nth [OF assms(2)] animateParticle_reseed add.commute)
  have c5: "in_cube 5 (fst (random_Vector3 10 (skip_draws ?k ?g)))"
    by (rule reseeded_in_cubes(1) [OF assms(1)])
  have cv: "in_cube 0.01 (fst (random_Vector3 0.02 (skip_draws (?k + 3) ?g)))"
    by (rule reseeded_in_cubes(2) [OF assms(1)])
  show ?thesis using True c5 cv in_cube_length [OF c5] by (simp add: q)
next
  case False
  then show ?thesis by (simp add: animateParticles_nth [OF assms(2)] animateParticle_stay)
qed

lemma half_draws: "draws_in_range (\<lambda>n. 1 / 2)"
  by (simp add: draws_in_range_def)

lemma zero_draws: "draws_in_range (\<lambda>n. 0)"
  by (simp add: draws_in_range_def)

theorem reseed_law_witness:
  "draws_in_range (random_source (scene_of [leaving, drifting] (\<lambda>n. 1 / 2)))
   \<and> length (particles (scene_of [leaving, drifting] (\<lambda>n. 1 / 2))) = 2
   \<and> escapes (particles (scene_of [leaving, drifting] (\<lambda>n. 1 / 2)) ! 0)
   \<and> position (particles (animateParticles (scene_of [leaving, drifting] (\<lambda>n. 1 / 2))) ! 0)
       = Vector3_set 0 0 0
   \<and> velocity (particles (animateParticles (scene_of [leaving, drifting] (\<lambda>n. 1 / 2))) ! 0)
       = Vector3_set 0 0 0
   \<and> \<not> escapes (particles (scene_of [leaving, drifting] (\<lambda>n. 1 / 2)) ! 1)
   \<and> position (particles (animateParticles (scene_of [leaving, drifting] (\<lambda>n. 1 / 2))) ! 1)
       = Vector3_set 1.01 2 2
   \<and> velocity (particles (animateParticles (scene_of [leaving, drifting] (\<lambda>n. 1 / 2))) ! 1)
       = Vector3_set 0.01 0 0"
  using reseed_law [of "scene_of [leaving, drifting] (\<lambda>n. 1 / 2)" 0]
    reseed_law [of "scene_of [leaving, drifting] (\<lambda>n. 1 / 2)" 1]
  by (simp add: half_draws leaving_def drifting_def escapes_eval Vector3_set_def
      random_Vector3_eq skip_draws_apply Vector3_add_def)

text \<open>
  C2 as stated asks for a distance strictly below \<open>5 * sqrt 3\<close>. When the three
  position draws are 0, the reseeded particle sits at the corner \<open>(-5, -5, -5)\<close>, at
  distance exactly \<open>5 * sqrt 3\<close>.
\<close>

theorem reseed_can_reach_the_corner:
  "draws_in_range (random_source (scene_of [leaving] (\<lambda>n. 0)))
   \<and> escapes (particles (scene_of [leaving] (\<lambda>n. 0)) ! 0)
   \<and> position (particles (animateParticles (scene_of [leaving] (\<lambda>n. 0))) ! 0)
       = Vector3_set (- 5) (- 5) (- 5)
   \<and> \<not> Vector3_length (position (particles (animateParticles (scene_of [leaving] (\<lambda>n. 0))) ! 0))
         < 5 * sqrt 3"
proof -
  let ?s = "scene_of [leaving] (\<lambda>n. 0)"
  have e: "escapes (particles ?s ! 0)"
    by (simp add: leaving_def escapes_eval Vector3_set_def)
  have p: "position (particles (animateParticles ?s) ! 0) = Vector3_set (- 5) (- 5) (- 5)"
    using e by (simp add: animateParticles_nth animateParticle_reseed draws_before_def
        random_Vector3_eq Vector3_set_def)
  have "Vector3_length (Vector3_set (- 5) (- 5) (- 5)) = sqrt (25 * 3)"
    by (simp add: Vector3_length_def Vector3_set_def)
  also have "\<dots> = 5 * sqrt 3"
    by (simp only: real_sqrt_mult) simp
  finally have "Vector3_length (position (particles (animateParticles ?s) ! 0)) = 5 * sqrt 3"
    by (simp only: p)
  then show ?thesis using e p by (simp add: zero_draws)
qed

text \<open>
  C9. After one call of \<^verbatim>\<open>animateParticles\<close>, with every draw in \<open>[0, 1)\<close>, there are as
  many particles as before and each lies within distance 20 of the origin: a particle
  is tested, and reseeded into the cube of half-width 5, in the call that moves it.
\<close>

theorem update_keeps_particles_within_20:
  assumes "draws_in_range (random_source s)"
  shows "length (particles (animateParticles s)) = length (particles s)
       \<and> (\<forall>i < length (particles s). Vector3_length (position (particles (animateParticles s) ! i)) \<le> 20)"
proof -
  have "Vector3_length (position (particles (animateParticles s) ! i)) \<le> 20"
    if i: "i < length (particles s)" for i
  proof (cases "escapes (particles s ! i)")
    case True
    let ?g = "skip_draws (draws_before (particles s) i) (random_source s)"
    have "position (particles (animateParticles s) ! i) = fst (random_Vector3 10 ?g)"
      using True by (simp add: animateParticles_nth [OF i] animateParticle_reseed)
    moreover have "Vector3_length (fst (random_Vector3 10 ?g)) \<le> 5 * sqrt 3"
      by (rule in_cube_length [OF reseeded_in_cubes(1) [OF assms]])
    ultimately show ?thesis using five_sqrt3_less_20 by simp
  next
    case False
    then have "position (particles (animateParticles s) ! i)
        = Vector3_add (position (particles s ! i)) (velocity (particles s ! i))"
      by (simp add: animateParticles_nth [OF i] animateParticle_stay)
    then show ?thesis using False by (simp add: escapes_def)
  qed
  then show ?thesis by (simp add: particles_animateParticles)
qed

theorem update_keeps_particles_within_20_witness:
  "draws_in_range (random_source (scene_of [leaving, resting_outside, drifting] (\<lambda>n. 1 / 2)))
   \<and> length (particles (animateParticles (scene_of [leaving, resting_outside, drifting] (\<lambda>n. 1 / 2)))) = 3
   \<and> Vector3_length (position (particles (animateParticles
        (scene_of [leaving, resting_outside, drifting] (\<lambda>n. 1 / 2))) ! 0)) \<le> 20
   \<and> Vector3_length (position (particles (animateParticles
        (scene_of [leaving, resting_outside, drifting] (\<lambda>n. 1 / 2))) ! 1)) \<le> 20
   \<and> Vector3_length (position (particles (animateParticles
        (scene_of [leaving, resting_outside, drifting] (\<lambda>n. 1 / 2))) ! 2)) \<le> 20"
  using update_keeps_particles_within_20 [of "scene_of [leaving, resting_outside, drifting] (\<lambda>n. 1 / 2)"]
  by (simp add: half_draws)


section \<open>Facts about rounding\<close>

lemma round_ties_even_of_int [simp]: "round_ties_even (of_int n) = n"
  by (simp add: round_ties_even_def)

lemma round_ties_even_numeral [simp]: "round_ties_even (numeral n) = numeral n"
  using round_ties_even_of_int [of "numeral n"] by simp

lemma round_ties_even_le:
  assumes "x \<le> of_int N"
  shows "round_ties_even x \<le> N"
proof -
  have f: "\<lfloor>x\<rfloor> \<le> N" using assms by (simp add: floor_le_iff)
  show ?thesis
  proof (cases "x = of_int \<lfloor>x\<rfloor>")
    case True
    then have "round_ties_even x = \<lfloor>x\<rfloor>" by (simp add: round_ties_even_def)
    then show ?thesis using f by simp
  next
    case False
    then have "of_int \<lfloor>x\<rfloor> < x" using of_int_floor_le [of x] by linarith
    then have "of_int \<lfloor>x\<rfloor> < (of_int N :: real)" using assms by linarith
    then have "\<lfloor>x\<rfloor> + 1 \<le> N" by simp
    moreover have "round_ties_even x \<le> \<lfloor>x\<rfloor> + 1"
      by (simp add: round_ties_even_def Let_def)
    ultimately show ?thesis by linarith
  qed
qed

lemma round_ties_even_ge:
  assumes "of_int N \<le> x"
  shows "N \<le> round_ties_even x"
proof -
  have "N \<le> \<lfloor>x\<rfloor>" using assms by (simp add: le_floor_iff)
  moreover have "\<lfloor>x\<rfloor> \<le> round_ties_even x"
    by (simp add: round_ties_even_def Let_def)
  ultimately show ?thesis by linarith
qed

lemma double_ulp_pos [simp]: "0 < double_ulp x"
  by (simp add: double_ulp_def)

lemma double_exponent_eq:
  assumes "- 1022 \<le> e" and "2 powr of_int e \<le> \<bar>x\<bar>" and "\<bar>x\<bar> < 2 powr of_int (e + 1)"
  shows "double_exponent x = e"
proof -
  have pos: "0 < \<bar>x\<bar>" using assms(2) powr_gt_zero [of 2 "of_int e"] by linarith
  have "of_int e \<le> log 2 \<bar>x\<bar>" using assms(2) pos by (simp add: le_log_iff)
  moreover have "log 2 \<bar>x\<bar> < of_int e + 1" using assms(3) pos by (simp add: log_less_iff)
  ultimately have "\<lfloor>log 2 \<bar>x\<bar>\<rfloor> = e" by (simp add: floor_eq_iff)
  then show ?thesis using assms(1) by (simp add: double_exponent_def)
qed

lemma double_exponent_le_0:
  assumes "x \<noteq> 0" and "\<bar>x\<bar> \<le> 1"
  shows "double_exponent x \<le> 0"
proof -
  have "log 2 \<bar>x\<bar> \<le> 0" using assms by simp
  then have "\<lfloor>log 2 \<bar>x\<bar>\<rfloor> \<le> 0" by (simp add: floor_le_iff) 
  then show ?thesis by (simp add: double_exponent_def)
qed

text \<open>A power of two at or above the unit in the last place is a whole number of units.\<close>

lemma power_of_two_units:
  assumes "double_exponent x - 52 \<le> k"
  shows "2 powr of_int k = of_int (2 ^ nat (k - (double_exponent x - 52))) * double_ulp x"
proof -
  let ?n = "nat (k - (double_exponent x - 52))"
  have "of_int k = real ?n + of_int (double_exponent x - 52)" using assms by simp
  then have "2 powr of_int k = 2 powr real ?n * 2 powr of_int (double_exponent x - 52)"
    by (simp only: powr_add)
  also have "2 powr real ?n = (2::real) ^ ?n" by (simp add: powr_realpow)
  finally show ?thesis by (simp add: double_ulp_def)
qed

lemma double_round_le:
  assumes "x \<noteq> 0" and "x \<le> 2 powr of_int k" and "double_exponent x - 52 \<le> k"
  shows "double_round x \<le> 2 powr of_int k"
proof -
  let ?N = "2 ^ nat (k - (double_exponent x - 52)) :: int"
  have c: "2 powr of_int k = of_int ?N * double_ulp x" by (rule power_of_two_units [OF assms(3)])
  have "x / double_ulp x \<le> of_int ?N"
    using assms(2) by (simp add: c pos_divide_le_eq)
  then have "round_ties_even (x / double_ulp x) \<le> ?N" by (rule round_ties_even_le)
  then have "(of_int (round_ties_even (x / double_ulp x)) :: real) \<le> of_int ?N" by (simp only: of_int_le_iff)
  then have "of_int (round_ties_even (x / double_ulp x)) * double_ulp x \<le> of_int ?N * double_ulp x"
    by (simp add: mult_right_mono)
  then show ?thesis using assms(1) by (simp add: double_round_def c)
qed

lemma double_round_ge:
  assumes "x \<noteq> 0" and "2 powr of_int k \<le> x" and "double_exponent x - 52 \<le> k"
  shows "2 powr of_int k \<le> double_round x"
proof -
  let ?N = "2 ^ nat (k - (double_exponent x - 52)) :: int"
  have c: "2 powr of_int k = of_int ?N * double_ulp x" by (rule power_of_two_units [OF assms(3)])
  have "of_int ?N \<le> x / double_ulp x"
    using assms(2) by (simp add: c pos_le_divide_eq)
  then have "?N \<le> round_ties_even (x / double_ulp x)" by (rule round_ties_even_ge)
  then have "(of_int ?N :: real) \<le> of_int (round_ties_even (x / double_ulp x))" by (simp only: of_int_le_iff)
  then have "of_int ?N * double_ulp x \<le> of_int (round_ties_even (x / double_ulp x)) * double_ulp x"
    by (simp add: mult_right_mono)
  then show ?thesis using assms(1) by (simp add: double_round_def c)
qed

lemma double_round_nonneg:
  assumes "0 \<le> x"
  shows "0 \<le> double_round x"
proof (cases "x = 0")
  case True
  then show ?thesis by (simp add: double_round_def)
next
  case False
  have "0 \<le> x / double_ulp x" using assms by (intro divide_nonneg_pos) simp_all
  then have "of_int 0 \<le> x / double_ulp x" by simp
  then have "0 \<le> round_ties_even (x / double_ulp x)" by (rule round_ties_even_ge)
  then have "0 \<le> of_int (round_ties_even (x / double_ulp x)) * double_ulp x"
    by (intro mult_nonneg_nonneg) (simp_all add: less_imp_le)
  then show ?thesis using False by (simp add: double_round_def)
qed

lemma half_powr: "2 powr of_int (- 1) = (1 / 2 :: real)"
  by (simp add: powr_minus_divide)

lemma one_powr: "2 powr of_int 0 = (1 :: real)"
  by simp

lemma double_round_lower_half:
  assumes "0 \<le> x" and "x \<le> 1 / 2"
  shows "0 \<le> double_round x \<and> double_round x \<le> 1 / 2"
proof (cases "x = 0")
  case True
  then show ?thesis by (simp add: double_round_def)
next
  case False
  have "\<bar>x\<bar> \<le> 1" using assms by linarith
  then have "double_exponent x \<le> 0" by (rule double_exponent_le_0 [OF False])
  then have k: "double_exponent x - 52 \<le> - 1" by linarith
  have "x \<le> 2 powr of_int (- 1)" using assms(2) by (simp only: half_powr)
  then have "double_round x \<le> 2 powr of_int (- 1)" using k by (rule double_round_le [OF False])
  then have "double_round x \<le> 1 / 2" by (simp only: half_powr)
  then show ?thesis using double_round_nonneg [OF assms(1)] by simp
qed

lemma double_round_upper_half:
  assumes "1 / 2 \<le> x" and "x \<le> 1"
  shows "1 / 2 \<le> double_round x \<and> double_round x \<le> 1"
proof -
  have nz: "x \<noteq> 0" using assms by linarith
  have "\<bar>x\<bar> \<le> 1" using assms by linarith
  then have e: "double_exponent x \<le> 0" by (rule double_exponent_le_0 [OF nz])
  have k1: "double_exponent x - 52 \<le> - 1" and k0: "double_exponent x - 52 \<le> 0"
    using e by linarith+
  have "2 powr of_int (- 1) \<le> x" using assms(1) by (simp only: half_powr)
  then have "2 powr of_int (- 1) \<le> double_round x" using k1 by (rule double_round_ge [OF nz])
  then have l: "1 / 2 \<le> double_round x" by (simp only: half_powr)
  have "x \<le> 2 powr of_int 0" using assms(2) by (simp only: one_powr)
  then have "double_round x \<le> 2 powr of_int 0" using k0 by (rule double_round_le [OF nz])
  then have "double_round x \<le> 1" by (simp only: one_powr)
  then show ?thesis using l by simp
qed

text \<open>Evaluating the rounding at a given number whose binade is known.\<close>

lemma double_round_in_binade:
  assumes "- 1022 \<le> e" and "2 powr of_int e \<le> \<bar>x\<bar>" and "\<bar>x\<bar> < 2 powr of_int (e + 1)"
  shows "double_round x = of_int (round_ties_even (x / 2 powr of_int (e - 52))) * 2 powr of_int (e - 52)"
proof -
  have "x \<noteq> 0" using assms(2) powr_gt_zero [of 2 "of_int e"] by auto
  then show ?thesis
    by (simp add: double_round_def double_ulp_def double_exponent_eq [OF assms])
qed

lemma largest_draw_is_double: "double_round (1 - 1 / 2 ^ 53) = 1 - 1 / 2 ^ 53"
proof -
  have "double_round (1 - 1 / 2 ^ 53)
      = of_int (round_ties_even ((1 - 1 / 2 ^ 53) / 2 powr of_int (- 1 - 52))) * 2 powr of_int (- 1 - 52)"
    by (rule double_round_in_binade) (simp_all add: powr_minus_divide)
  also have "(1 - 1 / 2 ^ 53) / 2 powr of_int (- 1 - 52) = (of_int (2 ^ 53 - 1) :: real)"
    by (simp add: powr_minus_divide)
  finally show ?thesis by (simp add: powr_minus_divide)
qed

lemma halved_largest_draw: "double_round ((1 - 1 / 2 ^ 53) * 0.5) = 1 / 2 - 1 / 2 ^ 54"
proof -
  have "double_round ((1 - 1 / 2 ^ 53) * 0.5)
      = of_int (round_ties_even (((1 - 1 / 2 ^ 53) * 0.5) / 2 powr of_int (- 2 - 52))) * 2 powr of_int (- 2 - 52)"
    by (rule double_round_in_binade) (simp_all add: powr_minus_divide)
  also have "((1 - 1 / 2 ^ 53) * 0.5) / 2 powr of_int (- 2 - 52) = (of_int (2 ^ 53 - 1) :: real)"
    by (simp add: powr_minus_divide)
  finally show ?thesis by (simp add: powr_minus_divide)
qed

lemma tie_rounds_to_one: "double_round (1 / 2 - 1 / 2 ^ 54 + 0.5) = 1"
proof -
  have "double_round (1 / 2 - 1 / 2 ^ 54 + 0.5)
      = of_int (round_ties_even ((1 / 2 - 1 / 2 ^ 54 + 0.5) / 2 powr of_int (- 1 - 52))) * 2 powr of_int (- 1 - 52)"
    by (rule double_round_in_binade) (simp_all add: powr_minus_divide)
  also have "(1 / 2 - 1 / 2 ^ 54 + 0.5) / 2 powr of_int (- 1 - 52) = (of_int (2 ^ 53 - 1) + 1 / 2 :: real)"
    by (simp add: powr_minus_divide)
  also have "round_ties_even (of_int (2 ^ 53 - 1) + 1 / 2) = 2 ^ 53"
  proof -
    have "\<lfloor>of_int (2 ^ 53 - 1) + (1 / 2 :: real)\<rfloor> = 2 ^ 53 - 1" by (simp add: floor_eq_iff)
    then show ?thesis by (simp add: round_ties_even_def Let_def)
  qed
  finally show ?thesis by (simp add: powr_minus_divide)
qed

lemma double_round_exact:
  assumes "- 1022 \<le> e" and "2 powr of_int e \<le> \<bar>x\<bar>" and "\<bar>x\<bar> < 2 powr of_int (e + 1)"
    and "x / 2 powr of_int (e - 52) = of_int m"
  shows "double_round x = x"
proof -
  have "double_round x = of_int (round_ties_even (x / 2 powr of_int (e - 52))) * 2 powr of_int (e - 52)"
    by (rule double_round_in_binade [OF assms(1-3)])
  also have "\<dots> = of_int m * 2 powr of_int (e - 52)"
    by (simp only: assms(4) round_ties_even_of_int)
  also have "\<dots> = x / 2 powr of_int (e - 52) * 2 powr of_int (e - 52)"
    by (simp only: assms(4))
  finally show ?thesis by simp
qed

lemma size_at_quarter: "double_round (double_round (1 / 8) + 1 / 2) = 5 / 8"
proof -
  have a: "double_round (1 / 8) = 1 / 8"
    using double_round_exact [of "- 3" "1 / 8" "2 ^ 52"] by (simp add: powr_minus_divide)
  have b: "double_round (5 / 8) = 5 / 8"
    using double_round_exact [of "- 1" "5 / 8" "5 * 2 ^ 50"] by (simp add: powr_minus_divide)
  have c: "(1 / 8 + 1 / 2 :: real) = 5 / 8" by simp
  show ?thesis by (simp only: a c b)
qed

section \<open>Generation of blocks and particles\<close>

lemma createBlocks_body_eq:
  "createBlocks_body R cs g =
     (\<lparr>position = \<lparr>x3 = (g 1 - 0.5) * 10 + (g 4 - 0.5) * R,
                    y3 = (g 2 - 0.5) * 10 + (g 5 - 0.5) * R,
                    z3 = (g 3 - 0.5) * 10 + (g 6 - 0.5) * R\<rparr>,
       scale = Vector3_set 1 1 1,
       size = double_round (double_round (g 8 * 0.5) + 0.5),
       color = array_read cs \<lfloor>g 7 * real (length cs)\<rfloor>\<rparr>,
      skip_draws 9 g)"
  by (simp add: createBlocks_body_def random_Vector3_eq random_centered_def random_color_def
      createBlock_def Math_random_def Vector3_set_def skip_draws_def fun_eq_iff Let_def
      eval_nat_numeral)

lemma createBlocks_iteration_fields:
  "clusterRadius (createBlocks_iteration s) = clusterRadius s"
  "colors (createBlocks_iteration s) = colors s"
  "random_source (createBlocks_iteration s) = skip_draws 9 (random_source s)"
  "blockGroup_children (createBlocks_iteration s) =
     blockGroup_children s @ [fst (createBlocks_body (clusterRadius s) (colors s) (random_source s))]"
  by (simp_all add: createBlocks_iteration_def createBlocks_body_eq)

lemma createBlocks_loop_children:
  "blockGroup_children (createBlocks_loop n s) =
     blockGroup_children s @
     map (\<lambda>i. fst (createBlocks_body (clusterRadius s) (colors s) (skip_draws (9 * i) (random_source s))))
       [0..<n]"
proof (induction n arbitrary: s)
  case 0
  then show ?case by simp
next
  case (Suc n)
  show ?case
    by (simp only: createBlocks_loop.simps Suc.IH createBlocks_iteration_fields map_upt_Suc)
       (simp add: add.commute)
qed

lemma createBlocks_nth:
  "i < blockCount s \<Longrightarrow>
   blockGroup_children (createBlocks s) ! (length (blockGroup_children s) + i) =
     fst (createBlocks_body (clusterRadius s) (colors s) (skip_draws (9 * i) (random_source s)))"
  by (simp add: createBlocks_def createBlocks_loop_children)

lemma length_createBlocks:
  "length (blockGroup_children (createBlocks s)) = length (blockGroup_children s) + blockCount s"
  by (simp add: createBlocks_def createBlocks_loop_children)

lemma createParticles_body_eq:
  "createParticles_body g =
     (\<lparr>position = fst (random_Vector3 30 g), scale = Vector3_set 1 1 1,
       velocity = fst (random_Vector3 0.02 (skip_draws 3 g))\<rparr>,
      skip_draws 6 g)"
  by (simp add: createParticles_body_def random_Vector3_eq)

lemma createParticles_iteration_fields:
  "random_source (createParticles_iteration s) = skip_draws 6 (random_source s)"
  "particles (createParticles_iteration s) =
     particles s @ [fst (createParticles_body (random_source s))]"
  by (simp_all add: createParticles_iteration_def createParticles_body_eq)

lemma createParticles_loop_particles:
  "particles (createParticles_loop n s) =
     particles s @ map (\<lambda>i. fst (createParticles_body (skip_draws (6 * i) (random_source s)))) [0..<n]"
proof (induction n arbitrary: s)
  case 0
  then show ?case by simp
next
  case (Suc n)
  show ?case
    by (simp only: createParticles_loop.simps Suc.IH createParticles_iteration_fields map_upt_Suc)
       (simp add: add.commute)
qed

lemma createParticles_nth:
  "i < particleCount s \<Longrightarrow>
   particles (createParticles s) ! (length (particles s) + i) =
     fst (createParticles_body (skip_draws (6 * i) (random_source s)))"
  by (simp add: createParticles_def createParticles_loop_particles)

lemma length_createParticles:
  "length (particles (createParticles s)) = length (particles s) + particleCount s"
  by (simp add: createParticles_def createParticles_loop_particles)

lemma floor_index:
  assumes "0 \<le> r" "r < 1" "0 < n"
  shows "0 \<le> \<lfloor>r * real n\<rfloor> \<and> nat \<lfloor>r * real n\<rfloor> < n"
proof -
  have a: "0 \<le> r * real n" using assms by simp
  have b: "r * real n < real n" using assms by simp
  have "\<lfloor>r * real n\<rfloor> < int n" using b by (simp add: floor_less_iff)
  moreover have "0 \<le> \<lfloor>r * real n\<rfloor>" using a by simp
  ultimately show ?thesis by linarith
qed

lemma array_read_random:
  assumes "0 \<le> r" "r < 1" "cs \<noteq> []"
  shows "array_read cs \<lfloor>r * real (length cs)\<rfloor> \<in> Some ` set cs"
proof -
  have n: "0 < length cs" using assms(3) by simp
  note f = floor_index [OF assms(1,2) n]
  then show ?thesis by (simp add: array_read_def)
qed

text \<open>
  C7. Every particle that \<^verbatim>\<open>createParticles\<close> adds, with every draw in \<open>[0, 1)\<close>, has
  each position coordinate in \<open>[-15, 15)\<close> and each velocity coordinate in
  \<open>[-0.01, 0.01)\<close>.
\<close>

theorem generated_particles_in_range:
  assumes "draws_in_range (random_source s)" and "i < particleCount s"
  shows "in_cube 15 (position (particles (createParticles s) ! (length (particles s) + i)))
       \<and> in_cube 0.01 (velocity (particles (createParticles s) ! (length (particles s) + i)))"
proof -
  let ?g = "skip_draws (6 * i) (random_source s)"
  have r: "draws_in_range ?g" "draws_in_range (skip_draws 3 ?g)"
    using assms(1) by (simp_all only: draws_in_range_skip)
  have "in_cube 15 (fst (random_Vector3 30 ?g))"
    using random_Vector3_in_cube [OF r(1), of 30] by simp
  moreover have "in_cube 0.01 (fst (random_Vector3 0.02 (skip_draws 3 ?g)))"
    using random_Vector3_in_cube [OF r(2), of "0.02"] by simp
  ultimately show ?thesis
    by (simp add: createParticles_nth [OF assms(2)] createParticles_body_eq)
qed

text \<open>
  C6, as the code has it. Every block that \<^verbatim>\<open>createBlocks\<close> adds, with every draw in
  \<open>[0, 1)\<close> and the palette of the constructor, has a size between 0.5 and 1, both ends
  included, and one of the three palette colours. (The size 1 is reached: the sum
  \<open>r * 0.5 + 0.5\<close> at the largest draw lies halfway between two doubles and rounds
  up.)
\<close>

theorem generated_blocks_size_and_color:
  assumes "draws_in_range (random_source s)" and "colors s = palette" and "i < blockCount s"
  shows "0.5 \<le> size (blockGroup_children (createBlocks s) ! (length (blockGroup_children s) + i))
       \<and> size (blockGroup_children (createBlocks s) ! (length (blockGroup_children s) + i)) \<le> 1
       \<and> color (blockGroup_children (createBlocks s) ! (length (blockGroup_children s) + i))
           \<in> {Some 0x1e90ff, Some 0x00ff7f, Some 0xffffff}"
proof -
  let ?g = "skip_draws (9 * i) (random_source s)"
  have r: "draws_in_range ?g" using assms(1) by (rule draws_in_range_skip)
  note d7 = draws_in_rangeD [OF r, of 7] and d8 = draws_in_rangeD [OF r, of 8]
  have c: "array_read palette \<lfloor>?g 7 * real (length palette)\<rfloor> \<in> Some ` set palette"
    using d7 by (intro array_read_random) (simp_all add: palette_def)
  have "0 \<le> ?g 8 * 0.5" "?g 8 * 0.5 \<le> 1 / 2" using d8 by simp_all
  then have "0 \<le> double_round (?g 8 * 0.5) \<and> double_round (?g 8 * 0.5) \<le> 1 / 2"
    by (rule double_round_lower_half)
  then have "1 / 2 \<le> double_round (?g 8 * 0.5) + 0.5" "double_round (?g 8 * 0.5) + 0.5 \<le> 1"
    by simp_all
  then have "1 / 2 \<le> double_round (double_round (?g 8 * 0.5) + 0.5)
      \<and> double_round (double_round (?g 8 * 0.5) + 0.5) \<le> 1"
    by (rule double_round_upper_half)
  then show ?thesis
    using c by (simp add: createBlocks_nth [OF assms(3)] createBlocks_body_eq assms(2))
      (auto simp: palette_def)
qed

text \<open>What the constructor sets.\<close>

lemma constructor_fields [simp]:
  "particles (BlockScene_constructor L g) = []"
  "blockGroup_children (BlockScene_constructor L g) = []"
  "random_source (BlockScene_constructor L g) = g"
  "colors (BlockScene_constructor L g) = palette"
  "blockCount (BlockScene_constructor L g) = 150"
  "particleCount (BlockScene_constructor L g) = 300"
  "clusterRadius (BlockScene_constructor L g) = 8"
  "mouse (BlockScene_constructor L g) = \<lparr>x2 = 0, y2 = 0\<rparr>"
  "lastIntersected (BlockScene_constructor L g) = None"
  by (simp_all add: BlockScene_constructor_def palette_def)

lemma quarter_draws: "draws_in_range (\<lambda>n. 1 / 4)"
  by (simp add: draws_in_range_def)

theorem generated_particles_in_range_witness:
  "draws_in_range (random_source (BlockScene_constructor hit_nothing (\<lambda>n. 1 / 4)))
   \<and> (299::nat) < particleCount (BlockScene_constructor hit_nothing (\<lambda>n. 1 / 4))
   \<and> in_cube 15 (position (particles (createParticles (BlockScene_constructor hit_nothing (\<lambda>n. 1 / 4))) ! 299))
   \<and> in_cube 0.01 (velocity (particles (createParticles (BlockScene_constructor hit_nothing (\<lambda>n. 1 / 4))) ! 299))
   \<and> position (particles (createParticles (BlockScene_constructor hit_nothing (\<lambda>n. 1 / 4))) ! 299)
       = Vector3_set (- 7.5) (- 7.5) (- 7.5)
   \<and> velocity (particles (createParticles (BlockScene_constructor hit_nothing (\<lambda>n. 1 / 4))) ! 299)
       = Vector3_set (- 0.005) (- 0.005) (- 0.005)"
  using generated_particles_in_range [of "BlockScene_constructor hit_nothing (\<lambda>n. 1 / 4)" 299]
    createParticles_nth [of 299 "BlockScene_constructor hit_nothing (\<lambda>n. 1 / 4)"]
  by (simp add: quarter_draws createParticles_body_eq random_Vector3_eq skip_draws_apply Vector3_set_def)

theorem generated_blocks_size_and_color_witness:
  "draws_in_range (random_source (BlockScene_constructor hit_nothing (\<lambda>n. 1 / 4)))
   \<and> colors (BlockScene_constructor hit_nothing (\<lambda>n. 1 / 4)) = palette
   \<and> (149::nat) < blockCount (BlockScene_constructor hit_nothing (\<lambda>n. 1 / 4))
   \<and> size (blockGroup_children (createBlocks (BlockScene_constructor hit_nothing (\<lambda>n. 1 / 4))) ! 149) = 0.625
   \<and> color (blockGroup_children (createBlocks (BlockScene_constructor hit_nothing (\<lambda>n. 1 / 4))) ! 149)
       = Some 0x1e90ff
   \<and> color (blockGroup_children (createBlocks (BlockScene_constructor hit_nothing (\<lambda>n. 1 / 4))) ! 149)
       \<in> {Some 0x1e90ff, Some 0x00ff7f, Some 0xffffff}"
  using generated_blocks_size_and_color [of "BlockScene_constructor hit_nothing (\<lambda>n. 1 / 4)" 149]
    createBlocks_nth [of 149 "BlockScene_constructor hit_nothing (\<lambda>n. 1 / 4)"]
  by (simp add: quarter_draws createBlocks_body_eq skip_draws_apply array_read_def palette_def
      size_at_quarter)

text \<open>
  C6 as stated asks for a size strictly below 1. The draw \<open>1 - 2^-53\<close> is a double in
  \<open>[0, 1)\<close>; halving it is exact, and adding 0.5 gives \<open>1 - 2^-54\<close>, which lies halfway
  between the doubles \<open>1 - 2^-53\<close> and 1 and rounds to the even one, 1.
\<close>

theorem size_can_reach_one:
  "draws_in_range (random_source (BlockScene_constructor hit_nothing largest_size_draw))
   \<and> colors (BlockScene_constructor hit_nothing largest_size_draw) = palette
   \<and> (0::nat) < blockCount (BlockScene_constructor hit_nothing largest_size_draw)
   \<and> largest_size_draw 8 = 1 - 1 / 2 ^ 53
   \<and> double_round (largest_size_draw 8) = largest_size_draw 8
   \<and> size (blockGroup_children (createBlocks (BlockScene_constructor hit_nothing largest_size_draw)) ! 0) = 1
   \<and> \<not> size (blockGroup_children (createBlocks (BlockScene_constructor hit_nothing largest_size_draw)) ! 0) < 1"
proof -
  let ?c = "BlockScene_constructor hit_nothing largest_size_draw"
  have d: "draws_in_range largest_size_draw"
    by (simp add: draws_in_range_def largest_size_draw_def)
  have g: "largest_size_draw 8 = 1 - 1 / 2 ^ 53"
    by (simp add: largest_size_draw_def)
  have "blockGroup_children (createBlocks ?c) ! (length (blockGroup_children ?c) + 0)
      = fst (createBlocks_body (clusterRadius ?c) (colors ?c) (skip_draws (9 * 0) (random_source ?c)))"
    by (rule createBlocks_nth) simp
  then have "size (blockGroup_children (createBlocks ?c) ! 0)
      = double_round (double_round (largest_size_draw 8 * 0.5) + 0.5)"
    by (simp add: createBlocks_body_eq)
  also have "\<dots> = 1"
    by (simp only: g halved_largest_draw tie_rounds_to_one)
  finally have s: "size (blockGroup_children (createBlocks ?c) ! 0) = 1" .
  have e: "double_round (largest_size_draw 8) = largest_size_draw 8"
    by (simp only: g largest_draw_is_double)
  have n: "\<not> size (blockGroup_children (createBlocks ?c) ! 0) < 1"
    by (simp only: s)
  have c: "draws_in_range (random_source ?c)" "colors ?c = palette" "0 < blockCount ?c"
    by (simp_all add: d)
  show ?thesis using c g e s n by blast
qed

lemma createBlocks_body_cong:
  assumes "\<And>k. 1 \<le> k \<Longrightarrow> k \<le> 8 \<Longrightarrow> g' k = g k"
  shows "fst (createBlocks_body R cs g') = fst (createBlocks_body R cs g)"
  by (simp add: createBlocks_body_eq assms)

lemma center_draws_other:
  assumes "j \<noteq> i" "1 \<le> k" "k \<le> 8"
  shows "k + 9 * j \<notin> center_draws i"
  using assms unfolding center_draws_def by auto

text \<open>
  C5. With every draw in \<open>[0, 1)\<close> and a positive cluster radius \<open>R\<close>, the block of
  iteration \<open>i\<close> of \<^verbatim>\<open>createBlocks\<close> is placed at its cluster centre plus its offset; the
  centre has each coordinate in \<open>[-5, 5)\<close> and is \<open>(r - 0.5) * 10\<close> per axis for a draw
  \<open>r\<close>, the offset has each coordinate in \<open>[-R/2, R/2)\<close>. The centre is the block's
  own: it is a function of the three draws \<open>center_draws i\<close> alone, and no other block
  of the run changes when exactly those draws are replaced.
\<close>

theorem block_position_is_own_center_plus_offset:
  assumes "draws_in_range (random_source s)" and "0 < clusterRadius s" and "i < blockCount s"
  shows "position (blockGroup_children (createBlocks s) ! (length (blockGroup_children s) + i))
           = Vector3_add (clusterCenter_of (random_source s) i)
               (offset_of (clusterRadius s) (random_source s) i)
       \<and> in_cube 5 (clusterCenter_of (random_source s) i)
       \<and> in_cube (clusterRadius s / 2) (offset_of (clusterRadius s) (random_source s) i)
       \<and> (\<forall>g'. (\<forall>n \<in> center_draws i. g' n = random_source s n) \<longrightarrow>
             clusterCenter_of g' i = clusterCenter_of (random_source s) i)
       \<and> (\<forall>g' j. j < blockCount s \<and> j \<noteq> i \<and> (\<forall>n. n \<notin> center_draws i \<longrightarrow> g' n = random_source s n) \<longrightarrow>
             blockGroup_children (createBlocks (s\<lparr>random_source := g'\<rparr>)) ! (length (blockGroup_children s) + j)
               = blockGroup_children (createBlocks s) ! (length (blockGroup_children s) + j))"
proof -
  let ?g = "random_source s"
  have c: "in_cube 5 (clusterCenter_of ?g i)"
    using random_Vector3_in_cube [OF draws_in_range_skip [OF assms(1)], of 10 "9 * i + 1"]
    by (simp add: clusterCenter_of_def)
  have "in_cube (clusterRadius s / 2) (offset_of (clusterRadius s) ?g i)"
    unfolding offset_of_def
    by (rule random_Vector3_in_cube [OF draws_in_range_skip [OF assms(1)] assms(2)])
  moreover have "position (blockGroup_children (createBlocks s) ! (length (blockGroup_children s) + i))
      = Vector3_add (clusterCenter_of ?g i) (offset_of (clusterRadius s) ?g i)"
    unfolding createBlocks_nth [OF assms(3)]
    by (simp add: createBlocks_body_eq clusterCenter_of_def
        offset_of_def random_Vector3_eq Vector3_add_def skip_draws_apply add.commute
        numeral_3_eq_3)
  moreover have "clusterCenter_of g' i = clusterCenter_of ?g i"
    if "\<forall>n \<in> center_draws i. g' n = ?g n" for g'
    using that by (simp add: clusterCenter_of_def random_Vector3_eq skip_draws_apply center_draws_def
        add.commute numeral_3_eq_3)
  moreover have "blockGroup_children (createBlocks (s\<lparr>random_source := g'\<rparr>)) ! (length (blockGroup_children s) + j)
      = blockGroup_children (createBlocks s) ! (length (blockGroup_children s) + j)"
    if j: "j < blockCount s" "j \<noteq> i" and g': "\<forall>n. n \<notin> center_draws i \<longrightarrow> g' n = ?g n" for g' j
  proof -
    have "skip_draws (9 * j) g' k = skip_draws (9 * j) ?g k" if "1 \<le> k" "k \<le> 8" for k
      using g' center_draws_other [OF j(2) that] by (simp add: skip_draws_apply)
    then have "fst (createBlocks_body (clusterRadius s) (colors s) (skip_draws (9 * j) g'))
        = fst (createBlocks_body (clusterRadius s) (colors s) (skip_draws (9 * j) ?g))"
      by (rule createBlocks_body_cong)
    moreover have "blockGroup_children (createBlocks (s\<lparr>random_source := g'\<rparr>)) ! (length (blockGroup_children s) + j)
        = fst (createBlocks_body (clusterRadius s) (colors s) (skip_draws (9 * j) g'))"
      using createBlocks_nth [of j "s\<lparr>random_source := g'\<rparr>"] j(1) by simp
    ultimately show ?thesis by (simp add: createBlocks_nth [OF j(1)])
  qed
  ultimately show ?thesis using c by blast
qed

theorem block_position_is_own_center_plus_offset_witness:
  "draws_in_range (random_source (BlockScene_constructor hit_nothing (\<lambda>n. 1 / 4)))
   \<and> clusterRadius (BlockScene_constructor hit_nothing (\<lambda>n. 1 / 4)) = 8
   \<and> (149::nat) < blockCount (BlockScene_constructor hit_nothing (\<lambda>n. 1 / 4))
   \<and> clusterCenter_of (\<lambda>n. 1 / 4) 149 = Vector3_set (- 2.5) (- 2.5) (- 2.5)
   \<and> offset_of 8 (\<lambda>n. 1 / 4) 149 = Vector3_set (- 2) (- 2) (- 2)
   \<and> position (blockGroup_children (createBlocks (BlockScene_constructor hit_nothing (\<lambda>n. 1 / 4))) ! 149)
       = Vector3_set (- 4.5) (- 4.5) (- 4.5)
   \<and> blockGroup_children (createBlocks ((BlockScene_constructor hit_nothing (\<lambda>n. 1 / 4))
         \<lparr>random_source := (\<lambda>n. if n \<in> center_draws 149 then 3 / 4 else 1 / 4)\<rparr>)) ! 7
       = blockGroup_children (createBlocks (BlockScene_constructor hit_nothing (\<lambda>n. 1 / 4))) ! 7"
proof -
  let ?s = "BlockScene_constructor hit_nothing (\<lambda>n. 1 / 4)"
  let ?g' = "\<lambda>n. if n \<in> center_draws 149 then 3 / 4 else (1 / 4 :: real)"
  have h: "draws_in_range (random_source ?s)" "0 < clusterRadius ?s" "149 < blockCount ?s"
    by (simp_all add: quarter_draws)
  note t = block_position_is_own_center_plus_offset [OF h]
  have c: "clusterCenter_of (\<lambda>n. 1 / 4) 149 = Vector3_set (- 2.5) (- 2.5) (- 2.5)"
    by (simp add: clusterCenter_of_def random_Vector3_eq skip_draws_apply Vector3_set_def)
  have d: "offset_of 8 (\<lambda>n. 1 / 4) 149 = Vector3_set (- 2) (- 2) (- 2)"
    by (simp add: offset_of_def random_Vector3_eq skip_draws_apply Vector3_set_def)
  have "position (blockGroup_children (createBlocks ?s) ! (length (blockGroup_children ?s) + 149))
      = Vector3_add (clusterCenter_of (random_source ?s) 149)
          (offset_of (clusterRadius ?s) (random_source ?s) 149)"
    by (rule t [THEN conjunct1])
  then have p: "position (blockGroup_children (createBlocks ?s) ! 149) = Vector3_set (- 4.5) (- 4.5) (- 4.5)"
    by (simp add: c d Vector3_add_def Vector3_set_def)
  have "7 < blockCount ?s \<and> (7::nat) \<noteq> 149 \<and> (\<forall>n. n \<notin> center_draws 149 \<longrightarrow> ?g' n = random_source ?s n) \<longrightarrow>
      blockGroup_children (createBlocks (?s\<lparr>random_source := ?g'\<rparr>)) ! (length (blockGroup_children ?s) + 7)
        = blockGroup_children (createBlocks ?s) ! (length (blockGroup_children ?s) + 7)"
    by (rule t [THEN conjunct2, THEN conjunct2, THEN conjunct2, THEN conjunct2, THEN spec, THEN spec])
  moreover have "7 < blockCount ?s \<and> (7::nat) \<noteq> 149 \<and> (\<forall>n. n \<notin> center_draws 149 \<longrightarrow> ?g' n = random_source ?s n)"
    by simp
  ultimately have "blockGroup_children (createBlocks (?s\<lparr>random_source := ?g'\<rparr>)) ! (length (blockGroup_children ?s) + 7)
        = blockGroup_children (createBlocks ?s) ! (length (blockGroup_children ?s) + 7)"
    by (rule mp)
  then have q: "blockGroup_children (createBlocks (?s\<lparr>random_source := ?g'\<rparr>)) ! 7
        = blockGroup_children (createBlocks ?s) ! 7"
    by (simp only: constructor_fields list.size add_0)
  show ?thesis using h(1,3) c d p q by (simp only: constructor_fields simp_thms)
qed


section \<open>Pointer interaction\<close>

lemma length_set_scale [simp]: "length (set_scale i v bs) = length bs"
  by (simp add: set_scale_def)

lemma length_set_color [simp]: "length (set_color i c bs) = length bs"
  by (simp add: set_color_def)

lemma scale_set_scale:
  "k < length bs \<Longrightarrow> scale (set_scale i v bs ! k) = (if k = i then v else scale (bs ! k))"
  by (simp add: set_scale_def nth_list_update)

lemma scale_set_color:
  "k < length bs \<Longrightarrow> scale (set_color i c bs ! k) = scale (bs ! k)"
  by (cases "k = i") (simp_all add: set_color_def)

lemma color_set_color:
  "i < length bs \<Longrightarrow> color (set_color i c bs ! i) = c"
  by (simp add: set_color_def)

lemma hover_inv_all_one:
  "\<forall>b \<in> set (blockGroup_children s). scale b = Vector3_set 1 1 1 \<Longrightarrow> hover_inv s"
  by (simp add: hover_inv_def)

lemma onMouseMove_children:
  "blockGroup_children (onMouseMove L cx cy w h s) =
     (let bs = (case lastIntersected s of
                  Some j \<Rightarrow> set_scale j (Vector3_set 1 1 1) (blockGroup_children s)
                | None \<Rightarrow> blockGroup_children s);
          hits = intersectObjects L
             (s\<lparr>mouse := \<lparr>x2 = (cx / w) * 2 - 1, y2 = - (cy / h) * 2 + 1\<rparr>,
                raycaster := setFromCamera L (raycaster s)
                   \<lparr>x2 = (cx / w) * 2 - 1, y2 = - (cy / h) * 2 + 1\<rparr> (camera s)\<rparr>)
      in if hits = [] then bs else set_scale (hd hits) (Vector3_set 1.1 1.1 1.1) bs)"
  by (simp add: onMouseMove_def Let_def split: option.splits)

lemma onMouseMove_lastIntersected:
  "lastIntersected (onMouseMove L cx cy w h s) =
     (let hits = intersectObjects L
             (s\<lparr>mouse := \<lparr>x2 = (cx / w) * 2 - 1, y2 = - (cy / h) * 2 + 1\<rparr>,
                raycaster := setFromCamera L (raycaster s)
                   \<lparr>x2 = (cx / w) * 2 - 1, y2 = - (cy / h) * 2 + 1\<rparr> (camera s)\<rparr>)
      in if hits = [] then None else Some (hd hits))"
  by (simp add: onMouseMove_def Let_def split: option.splits)

lemma reset_all_one:
  assumes "hover_inv s" and "k < length (blockGroup_children s)"
  shows "scale ((case lastIntersected s of
                  Some j \<Rightarrow> set_scale j (Vector3_set 1 1 1) (blockGroup_children s)
                | None \<Rightarrow> blockGroup_children s) ! k) = Vector3_set 1 1 1"
proof (cases "lastIntersected s")
  case None
  then show ?thesis using assms by (auto simp: hover_inv_def)
next
  case (Some j)
  then show ?thesis using assms by (auto simp: hover_inv_def scale_set_scale)
qed

lemma length_reset [simp]:
  "length (case lastIntersected s of
             Some j \<Rightarrow> set_scale j v (blockGroup_children s)
           | None \<Rightarrow> blockGroup_children s) = length (blockGroup_children s)"
  by (simp split: option.splits)

lemma onMouseMove_hover_inv:
  assumes "hover_inv s"
  shows "hover_inv (onMouseMove L cx cy w h s)"
  unfolding hover_inv_def onMouseMove_children onMouseMove_lastIntersected Let_def
  using reset_all_one [OF assms]
  by (auto simp: scale_set_scale)

lemma onMouseClick_scales:
  "length (blockGroup_children (onMouseClick L s)) = length (blockGroup_children s)"
  "lastIntersected (onMouseClick L s) = lastIntersected s"
  "k < length (blockGroup_children s) \<Longrightarrow>
     scale (blockGroup_children (onMouseClick L s) ! k) = scale (blockGroup_children s ! k)"
  by (simp_all add: onMouseClick_def Let_def split_beta scale_set_color)

lemma onMouseClick_hover_inv: "hover_inv s \<Longrightarrow> hover_inv (onMouseClick L s)"
  by (simp add: hover_inv_def onMouseClick_scales)

lemma animateParticles_other_fields [simp]:
  "blockGroup_children (animateParticles s) = blockGroup_children s"
  "lastIntersected (animateParticles s) = lastIntersected s"
  "mouse (animateParticles s) = mouse s"
  "colors (animateParticles s) = colors s"
  "camera (animateParticles s) = camera s"
  "raycaster (animateParticles s) = raycaster s"
  "rendered (animateParticles s) = rendered s"
  "frame_requests (animateParticles s) = frame_requests s"
  "blockGroup_rotation_x (animateParticles s) = blockGroup_rotation_x s"
  "blockGroup_rotation_y (animateParticles s) = blockGroup_rotation_y s"
  by (simp_all add: animateParticles_def split_beta)

lemma animate_other_fields [simp]:
  "blockGroup_children (animate L s) = blockGroup_children s"
  "lastIntersected (animate L s) = lastIntersected s"
  "mouse (animate L s) = mouse s"
  "colors (animate L s) = colors s"
  by (simp_all add: animate_def Let_def)

lemma animate_hover_inv: "hover_inv s \<Longrightarrow> hover_inv (animate L s)"
  by (simp add: hover_inv_def)

lemma handle_hover_inv: "hover_inv s \<Longrightarrow> hover_inv (handle L s e)"
  by (cases e)
    (simp_all add: onMouseMove_hover_inv onMouseClick_hover_inv animate_hover_inv
      animation_frame_callback_def)

lemma run_hover_inv: "hover_inv s \<Longrightarrow> hover_inv (run L s es)"
  unfolding run_def by (induction es arbitrary: s) (simp_all add: handle_hover_inv)

text \<open>
  C3. Start from a scene in which every block has scale \<open>(1, 1, 1)\<close>. After any sequence
  of events (pointer moves, and clicks and frames between them as well) at most one
  block has another scale; such a block is the recorded hover target and its scale is
  \<open>(1.1, 1.1, 1.1)\<close>.
\<close>

theorem hover_law:
  assumes "\<forall>b \<in> set (blockGroup_children s). scale b = Vector3_set 1 1 1"
  shows "hover_inv (run L s es)
       \<and> (\<forall>i j. i < length (blockGroup_children (run L s es))
              \<and> j < length (blockGroup_children (run L s es))
              \<and> scale (blockGroup_children (run L s es) ! i) \<noteq> Vector3_set 1 1 1
              \<and> scale (blockGroup_children (run L s es) ! j) \<noteq> Vector3_set 1 1 1
            \<longrightarrow> i = j)"
proof -
  have inv: "hover_inv (run L s es)"
    by (rule run_hover_inv [OF hover_inv_all_one [OF assms]])
  have "i = j"
    if "i < length (blockGroup_children (run L s es))"
      and "j < length (blockGroup_children (run L s es))"
      and "scale (blockGroup_children (run L s es) ! i) \<noteq> Vector3_set 1 1 1"
      and "scale (blockGroup_children (run L s es) ! j) \<noteq> Vector3_set 1 1 1" for i j
  proof -
    have "lastIntersected (run L s es) = Some i" using inv that(1,3) by (simp add: hover_inv_def)
    moreover have "lastIntersected (run L s es) = Some j" using inv that(2,4) by (simp add: hover_inv_def)
    ultimately show ?thesis by simp
  qed
  then show ?thesis using inv by blast
qed

theorem hover_law_witness:
  "scale (blockGroup_children two_blocks ! 0) = Vector3_set 1 1 1
   \<and> scale (blockGroup_children two_blocks ! 1) = Vector3_set 1 1 1
   \<and> length (blockGroup_children two_blocks) = 2
   \<and> hover_inv (run hit_by_side two_blocks
         [MouseMove 100 300 800 600, MouseClick, AnimationFrame 16, MouseMove 500 300 800 600])
   \<and> lastIntersected (run hit_by_side two_blocks [MouseMove 100 300 800 600]) = Some 0
   \<and> scale (blockGroup_children (run hit_by_side two_blocks [MouseMove 100 300 800 600]) ! 0)
       = Vector3_set 1.1 1.1 1.1
   \<and> lastIntersected (run hit_by_side two_blocks
         [MouseMove 100 300 800 600, MouseClick, AnimationFrame 16, MouseMove 500 300 800 600]) = Some 1
   \<and> scale (blockGroup_children (run hit_by_side two_blocks
         [MouseMove 100 300 800 600, MouseClick, AnimationFrame 16, MouseMove 500 300 800 600]) ! 0)
       = Vector3_set 1 1 1
   \<and> scale (blockGroup_children (run hit_by_side two_blocks
         [MouseMove 100 300 800 600, MouseClick, AnimationFrame 16, MouseMove 500 300 800 600]) ! 1)
       = Vector3_set 1.1 1.1 1.1"
proof -
  have a: "\<forall>b \<in> set (blockGroup_children two_blocks). scale b = Vector3_set 1 1 1"
    by (simp add: two_blocks_def)
  have "hover_inv (run hit_by_side two_blocks
         [MouseMove 100 300 800 600, MouseClick, AnimationFrame 16, MouseMove 500 300 800 600])"
    by (rule hover_law [OF a, THEN conjunct1])
  then show ?thesis
    by (simp add: run_def onMouseMove_children onMouseMove_lastIntersected onMouseClick_scales
        animation_frame_callback_def two_blocks_def hit_by_side_def BlockScene_constructor_def
        scale_set_scale Let_def)
qed


section \<open>The random source along a run\<close>

lemma draws_before_Cons_Suc:
  "draws_before (p # ps) (Suc n) = (if escapes p then 6 else 0) + draws_before ps n"
  by (simp add: draws_before_def)

lemma snd_forEach_particle:
  "snd (forEach_particle ps g) = skip_draws (draws_before ps (length ps)) g"
proof (induction ps arbitrary: g)
  case Nil
  then show ?case by (simp add: draws_before_def)
next
  case (Cons p ps)
  show ?case
    by (simp add: split_beta Let_def Cons.IH snd_animateParticle draws_before_Cons_Suc add.commute)
qed

lemma random_source_animateParticles:
  "random_source (animateParticles s) =
     skip_draws (draws_before (particles s) (length (particles s))) (random_source s)"
  by (simp add: animateParticles_def split_beta snd_forEach_particle)

lemma random_source_animate:
  "random_source (animate L s) =
     skip_draws (draws_before (particles s) (length (particles s))) (random_source s)"
  by (simp add: animate_def Let_def random_source_animateParticles)

lemma createBlocks_loop_fields:
  "random_source (createBlocks_loop n s) = skip_draws (9 * n) (random_source s)"
  "mouse (createBlocks_loop n s) = mouse s"
  "colors (createBlocks_loop n s) = colors s"
  "particles (createBlocks_loop n s) = particles s"
  "particleCount (createBlocks_loop n s) = particleCount s"
  by (induction n arbitrary: s)
    (simp_all add: createBlocks_iteration_def createBlocks_body_eq add.commute)

lemma createParticles_loop_fields:
  "random_source (createParticles_loop n s) = skip_draws (6 * n) (random_source s)"
  "mouse (createParticles_loop n s) = mouse s"
  "colors (createParticles_loop n s) = colors s"
  "blockGroup_children (createParticles_loop n s) = blockGroup_children s"
  by (induction n arbitrary: s)
    (simp_all add: createParticles_iteration_def createParticles_body_eq add.commute)

lemma onMouseClick_fields:
  "mouse (onMouseClick L s) = mouse s"
  "colors (onMouseClick L s) = colors s"
  "raycaster (onMouseClick L s) = setFromCamera L (raycaster s) (mouse s) (camera s)"
  by (simp_all add: onMouseClick_def Let_def split_beta)

lemma random_source_onMouseClick:
  "\<exists>k. random_source (onMouseClick L s) = skip_draws k (random_source s)"
proof (cases "intersectObjects L (s\<lparr>raycaster := setFromCamera L (raycaster s) (mouse s) (camera s)\<rparr>) = []")
  case True
  then have "random_source (onMouseClick L s) = skip_draws 0 (random_source s)"
    by (simp add: onMouseClick_def Let_def)
  then show ?thesis by blast
next
  case False
  then have "random_source (onMouseClick L s) = skip_draws 1 (random_source s)"
    by (simp add: onMouseClick_def Let_def split_beta random_color_def Math_random_def
        skip_draws_def)
  then show ?thesis by blast
qed

text \<open>What holds of a scene as long as the pointer has not moved.\<close>

lemma handle_unmoved:
  assumes "\<not> is_MouseMove e"
    and "mouse s = \<lparr>x2 = 0, y2 = 0\<rparr> \<and> colors s = palette \<and> (\<exists>k. random_source s = skip_draws k g)"
  shows "mouse (handle L s e) = \<lparr>x2 = 0, y2 = 0\<rparr> \<and> colors (handle L s e) = palette
       \<and> (\<exists>k. random_source (handle L s e) = skip_draws k g)"
proof (cases e)
  case (MouseMove a b c d)
  then show ?thesis using assms(1) by simp
next
  case MouseClick
  obtain k where k: "random_source s = skip_draws k g" using assms(2) by blast
  obtain k' where "random_source (onMouseClick L s) = skip_draws k' (random_source s)"
    using random_source_onMouseClick by blast
  then have "random_source (onMouseClick L s) = skip_draws (k' + k) g" by (simp add: k)
  then show ?thesis using assms(2) MouseClick by (auto simp: onMouseClick_fields)
next
  case (AnimationFrame t)
  obtain k where k: "random_source s = skip_draws k g" using assms(2) by blast
  have "random_source (animate L s) = skip_draws (draws_before (particles s) (length (particles s)) + k) g"
    by (simp add: random_source_animate k)
  then show ?thesis using assms(2) AnimationFrame
    by (auto simp: animation_frame_callback_def)
qed

lemma run_unmoved:
  assumes "\<forall>e \<in> set es. \<not> is_MouseMove e"
    and "mouse s = \<lparr>x2 = 0, y2 = 0\<rparr> \<and> colors s = palette \<and> (\<exists>k. random_source s = skip_draws k g)"
  shows "mouse (run L s es) = \<lparr>x2 = 0, y2 = 0\<rparr> \<and> colors (run L s es) = palette
       \<and> (\<exists>k. random_source (run L s es) = skip_draws k g)"
  using assms
proof (induction es arbitrary: s)
  case Nil
  then show ?case by (simp add: run_def)
next
  case (Cons e es)
  have "mouse (handle L s e) = \<lparr>x2 = 0, y2 = 0\<rparr> \<and> colors (handle L s e) = palette
       \<and> (\<exists>k. random_source (handle L s e) = skip_draws k g)"
    using Cons.prems by (intro handle_unmoved) simp_all
  then have "mouse (run L (handle L s e) es) = \<lparr>x2 = 0, y2 = 0\<rparr>
       \<and> colors (run L (handle L s e) es) = palette
       \<and> (\<exists>k. random_source (run L (handle L s e) es) = skip_draws k g)"
    using Cons.prems(1) by (intro Cons.IH) simp_all
  then show ?case by (simp add: run_def)
qed

lemma init_unmoved:
  assumes "init L (BlockScene_constructor L g) = Some s0"
  shows "mouse s0 = \<lparr>x2 = 0, y2 = 0\<rparr> \<and> colors s0 = palette
       \<and> (\<exists>k. random_source s0 = skip_draws k g)"
proof -
  let ?c = "BlockScene_constructor L g"
  have s0: "s0 = animate L (createParticles (createBlocks ?c))"
    using assms by (simp add: init_def split: if_splits)
  have "random_source s0 =
      skip_draws (draws_before (particles (createParticles (createBlocks ?c)))
                    (length (particles (createParticles (createBlocks ?c)))) + (6 * 300 + 9 * 150)) g"
    by (simp add: s0 random_source_animate createParticles_def createBlocks_def
        createParticles_loop_fields createBlocks_loop_fields)
  then have "\<exists>k. random_source s0 = skip_draws k g" by blast
  moreover have "mouse s0 = \<lparr>x2 = 0, y2 = 0\<rparr>" "colors s0 = palette"
    by (simp_all add: s0 createParticles_def createBlocks_def
        createParticles_loop_fields createBlocks_loop_fields)
  ultimately show ?thesis by simp
qed


lemma intersectObjects_hit_by_side:
  "intersectObjects hit_by_side s =
     filter (\<lambda>i. i < length (blockGroup_children s))
       (if x2 (mouse s) < 0 then [0] else if x2 (mouse s) < 1 / 2 then [1, 0] else [])"
  by (simp add: hit_by_side_def)

text \<open>Every block of the scene that \<^verbatim>\<open>init\<close> leaves has scale \<open>(1, 1, 1)\<close>.\<close>

lemma createBlocks_scales:
  assumes "\<forall>b \<in> set (blockGroup_children s). scale b = Vector3_set 1 1 1"
  shows "\<forall>b \<in> set (blockGroup_children (createBlocks s)). scale b = Vector3_set 1 1 1"
  using assms by (auto simp: createBlocks_def createBlocks_loop_children createBlocks_body_eq)

lemma init_all_scales_one:
  assumes "init L (BlockScene_constructor L g) = Some s0"
  shows "\<forall>b \<in> set (blockGroup_children s0). scale b = Vector3_set 1 1 1"
proof -
  have s0: "s0 = animate L (createParticles (createBlocks (BlockScene_constructor L g)))"
    using assms by (simp add: init_def split: if_splits)
  have "\<forall>b \<in> set (blockGroup_children (createBlocks (BlockScene_constructor L g))).
      scale b = Vector3_set 1 1 1"
    by (rule createBlocks_scales) simp
  then show ?thesis
    by (simp add: s0 createParticles_def createParticles_loop_fields)
qed

section \<open>Clicks and frames\<close>

text \<open>
  C4. A click whose ray hits no block changes nothing but the ray that the raycaster
  holds: the blocks (position, scale, size, colour), the hover target, the pointer, the
  particles and the random source are as before.
\<close>

theorem click_without_hit_changes_no_block:
  assumes "intersectObjects L (s\<lparr>raycaster := setFromCamera L (raycaster s) (mouse s) (camera s)\<rparr>) = []"
  shows "onMouseClick L s = s\<lparr>raycaster := setFromCamera L (raycaster s) (mouse s) (camera s)\<rparr>
       \<and> blockGroup_children (onMouseClick L s) = blockGroup_children s
       \<and> lastIntersected (onMouseClick L s) = lastIntersected s
       \<and> random_source (onMouseClick L s) = random_source s"
  using assms by (simp add: onMouseClick_def Let_def)

theorem click_without_hit_changes_no_block_witness:
  "intersectObjects hit_by_side
      ((run hit_by_side two_blocks [MouseMove 700 300 800 600])
         \<lparr>raycaster := setFromCamera hit_by_side
            (raycaster (run hit_by_side two_blocks [MouseMove 700 300 800 600]))
            (mouse (run hit_by_side two_blocks [MouseMove 700 300 800 600]))
            (camera (run hit_by_side two_blocks [MouseMove 700 300 800 600]))\<rparr>) = []
   \<and> blockGroup_children (onMouseClick hit_by_side (run hit_by_side two_blocks [MouseMove 700 300 800 600]))
       = blockGroup_children two_blocks
   \<and> lastIntersected (onMouseClick hit_by_side (run hit_by_side two_blocks [MouseMove 700 300 800 600]))
       = None
   \<and> onMouseClick hit_by_side (run hit_by_side two_blocks [MouseMove 700 300 800 600])
       = run hit_by_side two_blocks [MouseMove 700 300 800 600]"
proof -
  let ?s = "run hit_by_side two_blocks [MouseMove 700 300 800 600]"
  have m: "mouse ?s = \<lparr>x2 = 3 / 4, y2 = 0\<rparr>"
    by (simp add: run_def onMouseMove_def Let_def two_blocks_def hit_by_side_def
        BlockScene_constructor_def split: option.splits)
  have h: "intersectObjects hit_by_side
      (?s\<lparr>raycaster := setFromCamera hit_by_side (raycaster ?s) (mouse ?s) (camera ?s)\<rparr>) = []"
    by (simp add: intersectObjects_hit_by_side m)
  have b: "blockGroup_children ?s = blockGroup_children two_blocks"
    "lastIntersected ?s = None"
    by (simp_all add: run_def onMouseMove_children onMouseMove_lastIntersected Let_def
        two_blocks_def hit_by_side_def BlockScene_constructor_def)
  show ?thesis
    using click_without_hit_changes_no_block [OF h] h b by simp
qed

text \<open>
  C8. One call of \<^verbatim>\<open>animate\<close> requests the next frame, adds 0.002 to the rotation of the
  block group about x and about y, runs the particle update, updates the camera
  controls and renders last: the frame handed to the renderer shows the new rotation,
  the updated particles and the updated camera. The time stamp the host passes to the
  callback has no influence.
\<close>

theorem animate_steps:
  "frame_requests (animate L s) = frame_requests s + 1
   \<and> blockGroup_rotation_x (animate L s) = blockGroup_rotation_x s + 0.002
   \<and> blockGroup_rotation_y (animate L s) = blockGroup_rotation_y s + 0.002
   \<and> particles (animate L s) = particles (animateParticles s)
   \<and> random_source (animate L s) = random_source (animateParticles s)
   \<and> camera (animate L s) = controls_update L (camera s)
   \<and> rendered (animate L s) = rendered s @ [render L ((animate L s)\<lparr>rendered := rendered s\<rparr>)]
   \<and> blockGroup_children (animate L s) = blockGroup_children s
   \<and> (\<forall>t. animation_frame_callback L t s = animate L s)"
  by (simp add: animate_def Let_def animation_frame_callback_def animateParticles_def split_beta)

theorem animate_steps_witness:
  "blockGroup_rotation_x (animate recording ((BlockScene_constructor recording (\<lambda>n. 1 / 2))\<lparr>particles := [drifting]\<rparr>))
     = 0.002
   \<and> blockGroup_rotation_y (animate recording ((BlockScene_constructor recording (\<lambda>n. 1 / 2))\<lparr>particles := [drifting]\<rparr>))
     = 0.002
   \<and> map position (particles (animate recording ((BlockScene_constructor recording (\<lambda>n. 1 / 2))\<lparr>particles := [drifting]\<rparr>)))
     = [Vector3_set 1.01 2 2]
   \<and> camera (animate recording ((BlockScene_constructor recording (\<lambda>n. 1 / 2))\<lparr>particles := [drifting]\<rparr>)) = 1
   \<and> rendered (animate recording ((BlockScene_constructor recording (\<lambda>n. 1 / 2))\<lparr>particles := [drifting]\<rparr>))
     = [(0.002, 0.002, [Vector3_set 1.01 2 2], 1)]
   \<and> animation_frame_callback recording 16 ((BlockScene_constructor recording (\<lambda>n. 1 / 2))\<lparr>particles := [drifting]\<rparr>)
     = animation_frame_callback recording 33 ((BlockScene_constructor recording (\<lambda>n. 1 / 2))\<lparr>particles := [drifting]\<rparr>)"
proof -
  let ?s = "(BlockScene_constructor recording (\<lambda>n. 1 / 2))\<lparr>particles := [drifting]\<rparr>"
  have p: "particles (animateParticles ?s) =
      [\<lparr>position = Vector3_set 1.01 2 2, scale = Vector3_set 1 1 1, velocity = Vector3_set 0.01 0 0\<rparr>]"
    by (simp add: particles_animateParticles animateParticle_def drifting_def Vector3_add_def
        Vector3_set_def less_Vector3_length Let_def)
  note t = animate_steps [of recording ?s]
  have r: "rendered (animate recording ?s) = [(0.002, 0.002, [Vector3_set 1.01 2 2], 1)]"
    using t p by (simp add: recording_def BlockScene_constructor_def)
  have c: "camera (animate recording ?s) = 1"
    using t by (simp add: recording_def BlockScene_constructor_def)
  have x: "blockGroup_rotation_x (animate recording ?s) = 0.002"
    "blockGroup_rotation_y (animate recording ?s) = 0.002"
    using t by (simp_all add: BlockScene_constructor_def)
  have q: "map position (particles (animate recording ?s)) = [Vector3_set 1.01 2 2]"
    using t p by simp
  have f: "animation_frame_callback recording 16 ?s = animation_frame_callback recording 33 ?s"
    using t by simp
  show ?thesis using r c x q f by simp
qed


lemma onMouseClick_hit:
  assumes "intersectObjects L (s\<lparr>raycaster := setFromCamera L (raycaster s) (mouse s) (camera s)\<rparr>) = i # rest"
    and "i < length (blockGroup_children s)"
  shows "color (blockGroup_children (onMouseClick L s) ! i)
           = array_read (colors s) \<lfloor>random_source s 0 * real (length (colors s))\<rfloor>"
    and "random_source (onMouseClick L s) = skip_draws 1 (random_source s)"
  using assms
  by (simp_all add: onMouseClick_def Let_def split_beta random_color_def Math_random_def
      color_set_color skip_draws_def)

text \<open>
  C10. The constructor sets the pointer to \<open>(0, 0)\<close>, and there it stays through
  \<^verbatim>\<open>init\<close> and through clicks and frames. A click before any pointer move therefore
  sets the ray from \<open>(0, 0)\<close>, the centre of the viewport; when that ray hits a block,
  the nearest block hit gets the palette colour picked by the next draw, and the draw
  is consumed.
\<close>

theorem click_before_any_move:
  assumes "draws_in_range g"
    and "init L (BlockScene_constructor L g) = Some s0"
    and "\<forall>e \<in> set es. \<not> is_MouseMove e"
    and "s = run L s0 es"
    and "intersectObjects L
           (s\<lparr>raycaster := setFromCamera L (raycaster s) \<lparr>x2 = 0, y2 = 0\<rparr> (camera s)\<rparr>) = i # rest"
    and "i < length (blockGroup_children s)"
  shows "mouse (BlockScene_constructor L g) = \<lparr>x2 = 0, y2 = 0\<rparr>
       \<and> mouse s = \<lparr>x2 = 0, y2 = 0\<rparr>
       \<and> raycaster (onMouseClick L s) = setFromCamera L (raycaster s) \<lparr>x2 = 0, y2 = 0\<rparr> (camera s)
       \<and> color (blockGroup_children (onMouseClick L s) ! i) = array_read palette \<lfloor>random_source s 0 * 3\<rfloor>
       \<and> color (blockGroup_children (onMouseClick L s) ! i) \<in> {Some 0x1e90ff, Some 0x00ff7f, Some 0xffffff}
       \<and> random_source (onMouseClick L s) = skip_draws 1 (random_source s)"
proof -
  have u: "mouse s = \<lparr>x2 = 0, y2 = 0\<rparr> \<and> colors s = palette \<and> (\<exists>k. random_source s = skip_draws k g)"
    unfolding assms(4) by (rule run_unmoved [OF assms(3) init_unmoved [OF assms(2)]])
  then obtain k where k: "random_source s = skip_draws k g" by blast
  have m: "mouse s = \<lparr>x2 = 0, y2 = 0\<rparr>" and c: "colors s = palette" using u by simp_all
  have hit: "intersectObjects L (s\<lparr>raycaster := setFromCamera L (raycaster s) (mouse s) (camera s)\<rparr>) = i # rest"
    using assms(5) by (simp add: m)
  note h = onMouseClick_hit [OF hit assms(6)]
  have col: "color (blockGroup_children (onMouseClick L s) ! i) = array_read palette \<lfloor>random_source s 0 * 3\<rfloor>"
    using h(1) by (simp add: c palette_def)
  have r: "0 \<le> random_source s 0 \<and> random_source s 0 < 1"
    using draws_in_rangeD [OF draws_in_range_skip [OF assms(1)], of k 0] by (simp add: k)
  have "array_read palette \<lfloor>random_source s 0 * real (length palette)\<rfloor> \<in> Some ` set palette"
    using r by (intro array_read_random) (simp_all add: palette_def)
  then have "array_read palette \<lfloor>random_source s 0 * 3\<rfloor> \<in> {Some 0x1e90ff, Some 0x00ff7f, Some 0xffffff}"
    by (simp add: palette_def)
  then show ?thesis
    using col m h(2) by (simp add: onMouseClick_fields)
qed

lemma first_blue_in_range: "draws_in_range first_blue"
  by (simp add: draws_in_range_def first_blue_def)

lemma started_facts:
  "init hit_by_side (BlockScene_constructor hit_by_side first_blue) = Some started"
  "length (blockGroup_children started) = 150"
  "color (blockGroup_children started ! 1) = Some 0x1e90ff"
  "random_source started 0 = 1 / 2"
proof -
  let ?c = "BlockScene_constructor hit_by_side first_blue"
  show "init hit_by_side ?c = Some started"
    by (simp add: init_def started_def hit_by_side_def)
  show "length (blockGroup_children started) = 150"
    by (simp add: started_def createParticles_def createParticles_loop_fields length_createBlocks)
  have "blockGroup_children started ! 1 = blockGroup_children (createBlocks ?c) ! (length (blockGroup_children ?c) + 1)"
    by (simp add: started_def createParticles_def createParticles_loop_fields)
  also have "\<dots> = fst (createBlocks_body (clusterRadius ?c) (colors ?c) (skip_draws (9 * 1) (random_source ?c)))"
    by (rule createBlocks_nth) simp
  finally show "color (blockGroup_children started ! 1) = Some 0x1e90ff"
    by (simp add: createBlocks_body_eq skip_draws_apply first_blue_def array_read_def palette_def)
  show "random_source started 0 = 1 / 2"
    by (simp add: started_def random_source_animate createParticles_def createBlocks_def
        createParticles_loop_fields createBlocks_loop_fields skip_draws_apply first_blue_def)
qed

theorem click_before_any_move_witness:
  "draws_in_range first_blue
   \<and> init hit_by_side (BlockScene_constructor hit_by_side first_blue) = Some started
   \<and> mouse started = \<lparr>x2 = 0, y2 = 0\<rparr>
   \<and> intersectObjects hit_by_side
        (started\<lparr>raycaster := setFromCamera hit_by_side (raycaster started) \<lparr>x2 = 0, y2 = 0\<rparr> (camera started)\<rparr>)
       = [1, 0]
   \<and> color (blockGroup_children started ! 1) = Some 0x1e90ff
   \<and> color (blockGroup_children (onMouseClick hit_by_side started) ! 1) = Some 0x00ff7f"
proof -
  have e: "\<forall>e \<in> set []. \<not> is_MouseMove e" by simp
  have s: "started = run hit_by_side started []" by (simp add: run_def)
  have m: "mouse started = \<lparr>x2 = 0, y2 = 0\<rparr>"
    using init_unmoved [OF started_facts(1)] by simp
  have h: "intersectObjects hit_by_side
        (started\<lparr>raycaster := setFromCamera hit_by_side (raycaster started) \<lparr>x2 = 0, y2 = 0\<rparr> (camera started)\<rparr>)
       = 1 # [0]"
    by (simp add: intersectObjects_hit_by_side m started_facts(2))
  have l: "1 < length (blockGroup_children started)"
    by (simp add: started_facts(2))
  note t = click_before_any_move [OF first_blue_in_range started_facts(1) e s h l]
  have "color (blockGroup_children (onMouseClick hit_by_side started) ! 1) = Some 0x00ff7f"
    using t by (simp add: started_facts(4) array_read_def palette_def)
  then show ?thesis
    using first_blue_in_range started_facts(1,3) m h by simp
qed


end
